theory Spec2Isabelle
  imports Main
begin

section \<open>Text, bytes and the Python library\<close>

text \<open>
  A Python \<open>str\<close> is a sequence of Unicode code points and is modelled as a list of
  natural numbers; a Python \<open>bytes\<close> object is a list of 8-bit characters. A literal
  of the source is written \<open>str_of ''...''\<close>, a single character \<open>ch CHR ''x''\<close>.
\<close>

type_synonym str = "nat list"
type_synonym bytes = "char list"

abbreviation ch :: "char \<Rightarrow> nat" where
  "ch \<equiv> of_char"

abbreviation str_of :: "string \<Rightarrow> str" where
  "str_of \<equiv> map of_char"

text \<open>\<open>sep.join(parts)\<close>.\<close>

fun py_join :: "'a list \<Rightarrow> 'a list list \<Rightarrow> 'a list" where
  "py_join sep [] = []"
| "py_join sep [p] = p"
| "py_join sep (p # q # ps) = p @ sep @ py_join sep (q # ps)"

text \<open>\<open>s.split(c)\<close> for a separator of one character: never the empty list.\<close>

fun py_split :: "'a \<Rightarrow> 'a list \<Rightarrow> 'a list list" where
  "py_split c [] = [[]]"
| "py_split c (x # xs) =
     (if x = c then [] # py_split c xs
      else (case py_split c xs of
              [] \<Rightarrow> [[x]]
            | p # ps \<Rightarrow> (x # p) # ps))"

text \<open>
  \<open>s.partition(c)\<close> and \<open>s.rpartition(c)\<close> for a separator of one character: the text
  before the first (last) occurrence, the separator and the text after it; without an
  occurrence \<open>(s, '', '')\<close> and \<open>('', '', s)\<close>.
\<close>

fun py_partition :: "'a \<Rightarrow> 'a list \<Rightarrow> 'a list \<times> 'a list \<times> 'a list" where
  "py_partition c [] = ([], [], [])"
| "py_partition c (x # xs) =
     (if x = c then ([], [c], xs)
      else (case py_partition c xs of (a, sep, b) \<Rightarrow> (x # a, sep, b)))"

definition py_rpartition :: "'a \<Rightarrow> 'a list \<Rightarrow> 'a list \<times> 'a list \<times> 'a list" where
  "py_rpartition c s =
     (case py_partition c (rev s) of (a, sep, b) \<Rightarrow>
        if sep = [] then ([], [], s) else (rev b, sep, rev a))"

definition startswith :: "'a list \<Rightarrow> 'a list \<Rightarrow> bool" where
  "startswith s p = (take (length p) s = p)"

definition endswith :: "'a list \<Rightarrow> 'a list \<Rightarrow> bool" where
  "endswith s p = (length p \<le> length s \<and> drop (length s - length p) s = p)"

text \<open>\<open>s.replace(a, b)\<close> for single characters.\<close>

definition py_replace :: "'a \<Rightarrow> 'a \<Rightarrow> 'a list \<Rightarrow> 'a list" where
  "py_replace a b s = map (\<lambda>c. if c = a then b else c) s"

text \<open>
  \<open>str.isspace\<close> of one code point (the white space of the Unicode database), and
  \<open>s.strip()\<close>.
\<close>

definition py_isspace :: "nat \<Rightarrow> bool" where
  "py_isspace c =
     ((0x09 \<le> c \<and> c \<le> 0x0D) \<or> (0x1C \<le> c \<and> c \<le> 0x20) \<or> c = 0x85 \<or> c = 0xA0
      \<or> c = 0x1680 \<or> (0x2000 \<le> c \<and> c \<le> 0x200A) \<or> c = 0x2028 \<or> c = 0x2029
      \<or> c = 0x202F \<or> c = 0x205F \<or> c = 0x3000)"

definition py_strip :: "str \<Rightarrow> str" where
  "py_strip s = rev (dropWhile py_isspace (rev (dropWhile py_isspace s)))"

definition is_ascii :: "str \<Rightarrow> bool" where
  "is_ascii s = list_all (\<lambda>c. c < 0x80) s"

text \<open>
  Exceptions are values. The first nine are the \<open>ValueError\<close>s that parse.py raises
  itself, one per message; the others are raised by the library: \<open>int()\<close>, the
  \<open>ipaddress\<close> module, the codecs, a dictionary lookup, \<open>in\<close> on \<open>None\<close>. All
  but \<open>KeyError\<close> and \<open>TypeError\<close> are subclasses of \<open>ValueError\<close>.
\<close>

datatype error =
    URLContainsControlCodes
  | URLMissingScheme
  | URIMissingColon
  | PortNumberInvalid
  | EmptyHostname
  | InvalidHostname
  | InvalidIPv6Address
  | OctetNotInRange
  | NotAnIPv4Address
  | IntValueError
  | AddressValueError
  | UnicodeError
  | UnicodeEncodeError
  | UnicodeDecodeError
  | KeyError
  | TypeError

definition is_ValueError :: "error \<Rightarrow> bool" where
  "is_ValueError e = (e \<noteq> KeyError \<and> e \<noteq> TypeError)"

text \<open>Sequencing of two computations that may raise.\<close>

fun and_then :: "error + 'a \<Rightarrow> ('a \<Rightarrow> error + 'b) \<Rightarrow> error + 'b" where
  "and_then (Inl e) f = Inl e"
| "and_then (Inr x) f = f x"

text \<open>
  The parts of the Python library that rest on the Unicode database or are too large
  to write out are parameters of the model: the lower-casing of a text that is not
  ASCII, the decimal value of a digit that is not ASCII, the IDNA encoding of a name
  that is not ASCII, and the parser of \<open>ipaddress.IPv6Address\<close>, which gives the
  compressed text of the address and its number. On ASCII text none of the four is
  consulted, except the last for a host in brackets.
\<close>

record pylib =
  unicode_lower :: "str \<Rightarrow> str"
  unicode_decimal :: "nat \<Rightarrow> nat option"
  idna_unicode :: "str \<Rightarrow> error + bytes"
  ipv6 :: "str \<Rightarrow> error + (str \<times> nat)"

text \<open>A library in which everything beyond ASCII is refused, to run the model on ASCII input.\<close>

definition ascii_lib :: pylib where
  "ascii_lib = \<lparr> unicode_lower = (\<lambda>s. s), unicode_decimal = (\<lambda>c. None),
                 idna_unicode = (\<lambda>s. Inl UnicodeError), ipv6 = (\<lambda>s. Inl AddressValueError) \<rparr>"

text \<open>\<open>s.lower()\<close>.\<close>

definition ascii_lower :: "nat \<Rightarrow> nat" where
  "ascii_lower c = (if ch CHR ''A'' \<le> c \<and> c \<le> ch CHR ''Z'' then c + 32 else c)"

definition py_lower :: "pylib \<Rightarrow> str \<Rightarrow> str" where
  "py_lower lib s = (if is_ascii s then map ascii_lower s else unicode_lower lib s)"

text \<open>
  \<open>int(text, base)\<close> on a \<open>str\<close>. The text is first brought to ASCII (white space
  that is not ASCII becomes a space, a decimal digit that is not ASCII its ASCII digit,
  any other character \<open>?\<close>); then come optional white space, an optional sign, for
  base 16 (8, 2) an optional prefix \<open>0x\<close> (\<open>0o\<close>, \<open>0b\<close>), and digits with single
  underscores between them (one more may follow the prefix), then optional white space.
  The limit on the number of digits of recent versions is not modelled.
\<close>

definition c_isspace :: "nat \<Rightarrow> bool" where
  "c_isspace c = (c = 0x20 \<or> (0x09 \<le> c \<and> c \<le> 0x0D))"

definition int_transform :: "pylib \<Rightarrow> str \<Rightarrow> str" where
  "int_transform lib s =
     (if is_ascii s then s
      else map (\<lambda>c. if c < 127 then c
                     else if py_isspace c then 0x20
                     else (case unicode_decimal lib c of
                             Some d \<Rightarrow> ch CHR ''0'' + d
                           | None \<Rightarrow> ch CHR ''?'')) s)"

definition digit_value :: "nat \<Rightarrow> nat" where
  "digit_value c =
     (if ch CHR ''0'' \<le> c \<and> c \<le> ch CHR ''9'' then c - ch CHR ''0''
      else if ch CHR ''a'' \<le> c \<and> c \<le> ch CHR ''z'' then c - ch CHR ''a'' + 10
      else if ch CHR ''A'' \<le> c \<and> c \<le> ch CHR ''Z'' then c - ch CHR ''A'' + 10
      else 37)"

fun int_digits :: "nat \<Rightarrow> nat \<Rightarrow> str \<Rightarrow> nat option" where
  "int_digits base acc [] = Some acc"
| "int_digits base acc (c # cs) =
     (if c = ch CHR ''_'' then
        (case cs of
           [] \<Rightarrow> None
         | d # ds \<Rightarrow> if digit_value d < base
                     then int_digits base (acc * base + digit_value d) ds else None)
      else if digit_value c < base then int_digits base (acc * base + digit_value c) cs
      else None)"

definition int_body :: "nat \<Rightarrow> str \<Rightarrow> nat option" where
  "int_body base s =
     (case s of
        [] \<Rightarrow> None
      | c # cs \<Rightarrow> if digit_value c < base then int_digits base (digit_value c) cs else None)"

definition int_prefix :: "nat \<Rightarrow> str \<Rightarrow> str" where
  "int_prefix base s =
     (case s of
        z # x # rest \<Rightarrow>
          if z = ch CHR ''0'' \<and>
             ((base = 16 \<and> (x = ch CHR ''x'' \<or> x = ch CHR ''X''))
              \<or> (base = 8 \<and> (x = ch CHR ''o'' \<or> x = ch CHR ''O''))
              \<or> (base = 2 \<and> (x = ch CHR ''b'' \<or> x = ch CHR ''B'')))
          then (case rest of
                  [] \<Rightarrow> rest
                | u # r \<Rightarrow> if u = ch CHR ''_'' then r else rest)
          else s
      | _ \<Rightarrow> s)"

definition py_int :: "pylib \<Rightarrow> nat \<Rightarrow> str \<Rightarrow> error + int" where
  "py_int lib base text =
     (let t = dropWhile c_isspace (int_transform lib text);
          neg = (t \<noteq> [] \<and> hd t = ch CHR ''-'');
          t = (if t \<noteq> [] \<and> (hd t = ch CHR ''+'' \<or> hd t = ch CHR ''-'') then tl t else t);
          t = int_prefix base t;
          body = rev (dropWhile c_isspace (rev t))
      in case int_body base body of
           None \<Rightarrow> Inl IntValueError
         | Some n \<Rightarrow> Inr (if neg then - int n else int n))"

text \<open>\<open>str(n)\<close> and \<open>'{}'.format(n)\<close> for an integer.\<close>

function str_nat :: "nat \<Rightarrow> str" where
  "str_nat n = (if n < 10 then [ch CHR ''0'' + n] else str_nat (n div 10) @ [ch CHR ''0'' + n mod 10])"
  by pat_completeness auto
termination
  by (relation "measure id") auto

declare str_nat.simps [simp del]

definition str_int :: "int \<Rightarrow> str" where
  "str_int i = (if i < 0 then ch CHR ''-'' # str_nat (nat (- i)) else str_nat (nat i))"

text \<open>
  A text encoding (the argument \<open>encoding\<close> of \<open>str.encode\<close> and \<open>bytes.decode\<close>) is
  a pair of functions that take the error handling \<open>errors\<close>.
\<close>

datatype errors = Strict | Replace | Ignore

record codec =
  encode :: "errors \<Rightarrow> str \<Rightarrow> error + bytes"
  decode :: "errors \<Rightarrow> bytes \<Rightarrow> error + str"

text \<open>UTF-8. A surrogate (and a number that is no code point) cannot be encoded.\<close>

definition utf8_encode_cp :: "nat \<Rightarrow> bytes option" where
  "utf8_encode_cp c =
     (if c < 0x80 then Some [char_of c]
      else if c < 0x800 then Some [char_of (0xC0 + c div 64), char_of (0x80 + c mod 64)]
      else if 0xD800 \<le> c \<and> c \<le> 0xDFFF then None
      else if c < 0x10000 then
        Some [char_of (0xE0 + c div 4096), char_of (0x80 + c div 64 mod 64),
              char_of (0x80 + c mod 64)]
      else if c < 0x110000 then
        Some [char_of (0xF0 + c div 262144), char_of (0x80 + c div 4096 mod 64),
              char_of (0x80 + c div 64 mod 64), char_of (0x80 + c mod 64)]
      else None)"

fun utf8_encode :: "errors \<Rightarrow> str \<Rightarrow> error + bytes" where
  "utf8_encode e [] = Inr []"
| "utf8_encode e (c # cs) =
     (case utf8_encode_cp c of
        Some b \<Rightarrow> and_then (utf8_encode e cs) (\<lambda>r. Inr (b @ r))
      | None \<Rightarrow>
          (case e of
             Strict \<Rightarrow> Inl UnicodeEncodeError
           | Replace \<Rightarrow> and_then (utf8_encode e cs) (\<lambda>r. Inr (CHR ''?'' # r))
           | Ignore \<Rightarrow> utf8_encode e cs))"

text \<open>
  One step of the UTF-8 decoder on the bytes that remain (as numbers): the code point
  read, or \<open>None\<close> for an ill-formed sequence, and the number of bytes taken, which for
  an ill-formed sequence is its longest well-formed beginning (at least one byte).
\<close>

definition is_cont :: "nat \<Rightarrow> bool" where
  "is_cont b = (0x80 \<le> b \<and> b < 0xC0)"

definition utf8_decode_one :: "nat \<Rightarrow> nat list \<Rightarrow> nat option \<times> nat" where
  "utf8_decode_one b0 rest =
     (if b0 < 0x80 then (Some b0, 1)
      else if b0 < 0xC2 then (None, 1)
      else if b0 < 0xE0 then
        (case rest of
           [] \<Rightarrow> (None, 1)
         | b1 # r1 \<Rightarrow>
             if is_cont b1 then (Some ((b0 - 0xC0) * 64 + (b1 - 0x80)), 2) else (None, 1))
      else if b0 < 0xF0 then
        (case rest of
           [] \<Rightarrow> (None, 1)
         | b1 # r1 \<Rightarrow>
             if \<not> is_cont b1 \<or> (b0 = 0xE0 \<and> b1 < 0xA0) \<or> (b0 = 0xED \<and> 0xA0 \<le> b1)
             then (None, 1)
             else (case r1 of
                     [] \<Rightarrow> (None, 2)
                   | b2 # r2 \<Rightarrow>
                       if is_cont b2
                       then (Some ((b0 - 0xE0) * 4096 + (b1 - 0x80) * 64 + (b2 - 0x80)), 3)
                       else (None, 2)))
      else if b0 < 0xF5 then
        (case rest of
           [] \<Rightarrow> (None, 1)
         | b1 # r1 \<Rightarrow>
             if \<not> is_cont b1 \<or> (b0 = 0xF0 \<and> b1 < 0x90) \<or> (b0 = 0xF4 \<and> 0x90 \<le> b1)
             then (None, 1)
             else (case r1 of
                     [] \<Rightarrow> (None, 2)
                   | b2 # r2 \<Rightarrow>
                       if \<not> is_cont b2 then (None, 2)
                       else (case r2 of
                               [] \<Rightarrow> (None, 3)
                             | b3 # r3 \<Rightarrow>
                                 if is_cont b3
                                 then (Some ((b0 - 0xF0) * 262144 + (b1 - 0x80) * 4096
                                             + (b2 - 0x80) * 64 + (b3 - 0x80)), 4)
                                 else (None, 3))))
      else (None, 1))"

function utf8_decode_loop :: "errors \<Rightarrow> nat list \<Rightarrow> error + str" where
  "utf8_decode_loop e [] = Inr []"
| "utf8_decode_loop e (b # bs) =
     (case utf8_decode_one b bs of
        (Some c, n) \<Rightarrow> and_then (utf8_decode_loop e (drop (n - 1) bs)) (\<lambda>r. Inr (c # r))
      | (None, n) \<Rightarrow>
          (case e of
             Strict \<Rightarrow> Inl UnicodeDecodeError
           | Replace \<Rightarrow> and_then (utf8_decode_loop e (drop (n - 1) bs)) (\<lambda>r. Inr (0xFFFD # r))
           | Ignore \<Rightarrow> utf8_decode_loop e (drop (n - 1) bs)))"
  by pat_completeness auto
termination
  by (relation "measure (\<lambda>(e, bs). length bs)") auto

definition utf8_decode :: "errors \<Rightarrow> bytes \<Rightarrow> error + str" where
  "utf8_decode e bs = utf8_decode_loop e (map of_char bs)"

definition utf_8 :: codec where
  "utf_8 = \<lparr> encode = utf8_encode, decode = utf8_decode \<rparr>"

text \<open>\<open>bytes.decode('ascii')\<close>.\<close>

definition ascii_decode :: "bytes \<Rightarrow> error + str" where
  "ascii_decode bs =
     (if list_all (\<lambda>b. (of_char b :: nat) < 0x80) bs then Inr (map of_char bs)
      else Inl UnicodeDecodeError)"

section \<open>URL percent-encoding (encode.py)\<close>

definition C0_CONTROL_SET :: "nat set" where
  "C0_CONTROL_SET = {0..0x1f}"

definition DEFAULT_ENCODE_SET :: "char set" where
  "DEFAULT_ENCODE_SET = set [CHR '' '', CHR 0x22, CHR ''#'', CHR ''<'', CHR ''>'', CHR ''?'', CHR 0x60]"

definition PASSWORD_ENCODE_SET :: "char set" where
  "PASSWORD_ENCODE_SET = DEFAULT_ENCODE_SET \<union> set [CHR ''/'', CHR ''@'', CHR 0x5C]"

definition USERNAME_ENCODE_SET :: "char set" where
  "USERNAME_ENCODE_SET = PASSWORD_ENCODE_SET \<union> set [CHR '':'']"

definition QUERY_ENCODE_SET :: "char set" where
  "QUERY_ENCODE_SET = set [CHR 0x22, CHR ''#'', CHR ''<'', CHR ''>'', CHR 0x60]"

definition FRAGMENT_ENCODE_SET :: "char set" where
  "FRAGMENT_ENCODE_SET = set [CHR '' '', CHR 0x22, CHR ''<'', CHR ''>'', CHR 0x60]"

definition QUERY_KEY_ENCODE_SET :: "char set" where
  "QUERY_KEY_ENCODE_SET = QUERY_ENCODE_SET \<union> set [CHR ''&'', CHR ''+'', CHR ''%'', CHR ''='']"

definition QUERY_VALUE_ENCODE_SET :: "char set" where
  "QUERY_VALUE_ENCODE_SET = QUERY_ENCODE_SET \<union> set [CHR ''&'', CHR ''+'', CHR ''%'']"

definition FORBIDDEN_HOSTNAME_CHARS :: "nat set" where
  "FORBIDDEN_HOSTNAME_CHARS =
     set [ch CHR ''#'', ch CHR ''%'', ch CHR ''/'', ch CHR '':'', ch CHR ''?'', ch CHR ''@'',
          ch CHR ''['', ch CHR 0x5C, ch CHR '']'', ch CHR '' '']"

text \<open>\<open>'{:02X}'.format(n)\<close> for the value of a byte: two upper-case hexadecimal digits.\<close>

definition hex_upper :: "nat \<Rightarrow> char" where
  "hex_upper d = ''0123456789ABCDEF'' ! d"

definition format_02X :: "nat \<Rightarrow> bytes" where
  "format_02X n = [hex_upper (n div 16), hex_upper (n mod 16)]"

text \<open>
  \<open>PercentEncoderMap\<close> is a \<open>defaultdict\<close>: its items are the bytes met so far;
  \<open>__missing__\<close> computes the item of a new byte and stores it, \<open>__getitem__\<close> looks a byte
  up and calls \<open>__missing__\<close> when it is not there.
\<close>

record PercentEncoderMap =
  encode_set :: "char set"
  items :: "char \<rightharpoonup> bytes"

definition missing :: "PercentEncoderMap \<Rightarrow> char \<Rightarrow> bytes \<times> PercentEncoderMap" where
  "missing self c =
     (let result = (if (of_char c :: nat) < 0x20 \<or> (of_char c :: nat) > 0x7E \<or> c \<in> encode_set self
                    then CHR ''%'' # format_02X (of_char c)
                    else [c])
      in (result, self\<lparr>items := (items self)(c \<mapsto> result)\<rparr>))"

definition getitem :: "PercentEncoderMap \<Rightarrow> char \<Rightarrow> bytes \<times> PercentEncoderMap" where
  "getitem self c = (case items self c of Some r \<Rightarrow> (r, self) | None \<Rightarrow> missing self c)"

text \<open>
  The module's cache \<open>_percent_encoder_map_cache\<close>, from encode sets to their maps, is
  the state of the encoder: \<open>percent_encode_bytes\<close> takes it and returns it updated (the
  map found or made is the object the cache holds, so the items added while encoding
  stay in the cache).
\<close>

type_synonym encoder_cache = "char set \<rightharpoonup> PercentEncoderMap"

definition get_percent_encoder_map ::
  "encoder_cache \<Rightarrow> char set \<Rightarrow> PercentEncoderMap \<times> encoder_cache" where
  "get_percent_encoder_map cache eset =
     (case cache eset of
        Some mapper \<Rightarrow> (mapper, cache)
      | None \<Rightarrow> (let mapper = \<lparr> encode_set = eset, items = Map.empty \<rparr>
                 in (mapper, cache(eset \<mapsto> mapper))))"

fun join_items :: "PercentEncoderMap \<Rightarrow> bytes \<Rightarrow> bytes \<times> PercentEncoderMap" where
  "join_items mapper [] = ([], mapper)"
| "join_items mapper (c # cs) =
     (case getitem mapper c of (r, mapper1) \<Rightarrow>
        (case join_items mapper1 cs of (rs, mapper2) \<Rightarrow> (r @ rs, mapper2)))"

definition percent_encode_bytes ::
  "encoder_cache \<Rightarrow> bytes \<Rightarrow> char set \<Rightarrow> bytes \<times> encoder_cache" where
  "percent_encode_bytes cache data eset =
     (case get_percent_encoder_map cache eset of (mapper, cache1) \<Rightarrow>
        (case join_items mapper data of (result, mapper1) \<Rightarrow>
           (result, cache1(eset \<mapsto> mapper1))))"

text \<open>
  The bytes \<open>percent_encode_bytes\<close> returns do not depend on the cache (lemma
  \<open>percent_encode_bytes_any_cache\<close> below), so its callers are modelled without the
  cache: \<open>encoded\<close> is the result from the cache the module starts with.
\<close>

definition encoded :: "bytes \<Rightarrow> char set \<Rightarrow> bytes" where
  "encoded data eset = fst (percent_encode_bytes Map.empty data eset)"

definition percent_encode :: "str \<Rightarrow> char set \<Rightarrow> codec \<Rightarrow> errors \<Rightarrow> error + str" where
  "percent_encode text eset enc e =
     and_then (encode enc e text) (\<lambda>data. ascii_decode (encoded data eset))"

definition percent_encode_plus :: "str \<Rightarrow> char set \<Rightarrow> codec \<Rightarrow> errors \<Rightarrow> error + str" where
  "percent_encode_plus text eset enc e =
     and_then (percent_encode text eset enc e)
       (\<lambda>r. Inr (py_replace (ch CHR '' '') (ch CHR ''+'') r))"

definition percent_encode_query_key :: "str \<Rightarrow> codec \<Rightarrow> errors \<Rightarrow> error + str" where
  "percent_encode_query_key text enc e = percent_encode_plus text QUERY_KEY_ENCODE_SET enc e"

definition percent_encode_query_value :: "str \<Rightarrow> codec \<Rightarrow> errors \<Rightarrow> error + str" where
  "percent_encode_query_value text enc e = percent_encode_plus text QUERY_VALUE_ENCODE_SET enc e"

text \<open>
  \<open>percent_decode\<close> is \<open>urllib.parse.unquote\<close> and \<open>percent_decode_plus\<close> is
  \<open>urllib.parse.unquote_plus\<close>. \<open>unquote_to_bytes\<close>, applied to ASCII text, turns every
  \<open>%\<close> that two hexadecimal digits follow into the byte they name and copies every
  other character. \<open>unquote\<close> returns a text without \<open>%\<close> as it is; otherwise it
  cuts the text into runs of ASCII characters and runs of other characters, unquotes
  each ASCII run to bytes, decodes them with the encoding, and leaves the other runs.
  Its defaults are \<open>encoding='utf-8'\<close> and \<open>errors='replace'\<close>.
\<close>

definition is_hexdigit :: "nat \<Rightarrow> bool" where
  "is_hexdigit c = (digit_value c < 16)"

fun unquote_to_bytes :: "str \<Rightarrow> bytes" where
  "unquote_to_bytes (c # h # l # rest) =
     (if c = ch CHR ''%'' \<and> is_hexdigit h \<and> is_hexdigit l
      then char_of (16 * digit_value h + digit_value l) # unquote_to_bytes rest
      else char_of c # unquote_to_bytes (h # l # rest))"
| "unquote_to_bytes cs = map char_of cs"

function unquote_parts :: "codec \<Rightarrow> errors \<Rightarrow> str \<Rightarrow> error + str" where
  "unquote_parts enc e [] = Inr []"
| "unquote_parts enc e (c # cs) =
     (if c < 0x80 then
        and_then (decode enc e (unquote_to_bytes (c # takeWhile (\<lambda>d. d < 0x80) cs)))
          (\<lambda>t. and_then (unquote_parts enc e (dropWhile (\<lambda>d. d < 0x80) cs))
             (\<lambda>r. Inr (t @ r)))
      else
        and_then (unquote_parts enc e (dropWhile (\<lambda>d. \<not> d < 0x80) cs))
          (\<lambda>r. Inr (c # takeWhile (\<lambda>d. \<not> d < 0x80) cs @ r)))"
  by pat_completeness auto
termination
  by (relation "measure (\<lambda>(enc, e, s). length s)")
     (auto simp: le_imp_less_Suc length_dropWhile_le)

definition unquote :: "str \<Rightarrow> codec \<Rightarrow> errors \<Rightarrow> error + str" where
  "unquote string enc e =
     (if ch CHR ''%'' \<notin> set string then Inr string else unquote_parts enc e string)"


definition percent_decode :: "str \<Rightarrow> codec \<Rightarrow> errors \<Rightarrow> error + str" where
  "percent_decode = unquote"


text \<open>
  \<open>re.sub(r'%[a-fA-F0-9][a-fA-F0-9]', lambda match: match.group(0).upper(), text)\<close>:
  the matches are found from the left and do not overlap.
\<close>

definition ascii_upper :: "nat \<Rightarrow> nat" where
  "ascii_upper c = (if ch CHR ''a'' \<le> c \<and> c \<le> ch CHR ''z'' then c - 32 else c)"

fun uppercase_percent_encoding :: "str \<Rightarrow> str" where
  "uppercase_percent_encoding (c # h # l # rest) =
     (if c = ch CHR ''%'' \<and> is_hexdigit h \<and> is_hexdigit l
      then c # ascii_upper h # ascii_upper l # uppercase_percent_encoding rest
      else c # uppercase_percent_encoding (h # l # rest))"
| "uppercase_percent_encoding cs = cs"

section \<open>URL path manipulation (path.py)\<close>

text \<open>
  One iteration of the loop of \<open>flatten_path\<close> over the deque \<open>new_parts\<close>:
  \<open>append\<close> adds at the right end, \<open>pop\<close> removes the right end.
\<close>

definition flatten_step :: "str list \<Rightarrow> str \<Rightarrow> str list" where
  "flatten_step new_parts part =
     (if part = str_of ''.'' then new_parts
      else if part \<noteq> str_of ''..'' then new_parts @ [part]
      else if new_parts \<noteq> [] then butlast new_parts
      else new_parts)"

text \<open>\<open>re.sub(r'/+', '/', s)\<close>: every maximal run of slashes becomes one slash.\<close>

function sub_slashes :: "str \<Rightarrow> str" where
  "sub_slashes [] = []"
| "sub_slashes (c # cs) =
     (if c = ch CHR ''/''
      then ch CHR ''/'' # sub_slashes (dropWhile (\<lambda>d. d = ch CHR ''/'') cs)
      else c # sub_slashes cs)"
  by pat_completeness auto
termination
  by (relation "measure length") (auto simp: le_imp_less_Suc length_dropWhile_le)

definition flatten_path :: "str \<Rightarrow> bool \<Rightarrow> str" where
  "flatten_path path flatten_slashes =
     (let parts = py_split (ch CHR ''/'') path;
          new_parts = foldl flatten_step [] parts;
          new_path = py_join (str_of ''/'') new_parts
      in if flatten_slashes then sub_slashes new_path else new_path)"

text \<open>Two neighbouring slashes somewhere in a text.\<close>

fun double_slash :: "str \<Rightarrow> bool" where
  "double_slash (c # d # cs) = ((c = ch CHR ''/'' \<and> d = ch CHR ''/'') \<or> double_slash (d # cs))"
| "double_slash _ = False"

section \<open>URL normalization (norm.py)\<close>

text \<open>
  \<open>hostname.encode('idna')\<close>: the empty name gives no bytes; an ASCII name is returned
  as it is once its labels pass the length check (every label but the last has 1 to 63
  characters, the last at most 63); any other name goes through the library's
  conversion.
\<close>

definition idna_encode :: "pylib \<Rightarrow> str \<Rightarrow> error + bytes" where
  "idna_encode lib input =
     (if input = [] then Inr []
      else if is_ascii input then
        (let labels = py_split (ch CHR ''.'') input
         in if list_ex (\<lambda>label. \<not> (0 < length label \<and> length label < 64)) (butlast labels)
            then Inl UnicodeError
            else if 64 \<le> length (last labels) then Inl UnicodeError
            else Inr (map char_of input))
      else idna_unicode lib input)"

definition normalize_hostname :: "pylib \<Rightarrow> str \<Rightarrow> error + str" where
  "normalize_hostname lib hostname' =
     and_then (idna_encode lib hostname') (\<lambda>b.
     and_then (ascii_decode b) (\<lambda>t.
       let new_hostname = py_lower lib t
       in if hostname' = new_hostname then Inr new_hostname
          else and_then (idna_encode lib new_hostname) (\<lambda>_. Inr new_hostname)))"

definition normalize_path :: "str \<Rightarrow> codec \<Rightarrow> errors \<Rightarrow> error + str" where
  "normalize_path path' enc e =
     and_then (percent_encode (flatten_path path' True) DEFAULT_ENCODE_SET enc e)
       (\<lambda>r. Inr (uppercase_percent_encoding r))"

definition normalize_query :: "str \<Rightarrow> codec \<Rightarrow> errors \<Rightarrow> error + str" where
  "normalize_query text enc e =
     and_then (percent_encode_plus text QUERY_ENCODE_SET enc e)
       (\<lambda>r. Inr (uppercase_percent_encoding r))"

definition normalize_fragment :: "str \<Rightarrow> codec \<Rightarrow> errors \<Rightarrow> error + str" where
  "normalize_fragment text enc e =
     and_then (percent_encode text FRAGMENT_ENCODE_SET enc e)
       (\<lambda>r. Inr (uppercase_percent_encoding r))"

definition normalize_username :: "str \<Rightarrow> codec \<Rightarrow> errors \<Rightarrow> error + str" where
  "normalize_username text enc e =
     and_then (percent_encode text USERNAME_ENCODE_SET enc e)
       (\<lambda>r. Inr (uppercase_percent_encoding r))"

definition normalize_password :: "str \<Rightarrow> codec \<Rightarrow> errors \<Rightarrow> error + str" where
  "normalize_password text enc e =
     and_then (percent_encode text PASSWORD_ENCODE_SET enc e)
       (\<lambda>r. Inr (uppercase_percent_encoding r))"

section \<open>URL parsing (parse.py)\<close>

definition RELATIVE_SCHEME_DEFAULT_PORTS :: "str \<rightharpoonup> int" where
  "RELATIVE_SCHEME_DEFAULT_PORTS =
     map_of [(str_of ''ftp'', 21), (str_of ''gopher'', 70), (str_of ''http'', 80),
             (str_of ''https'', 443), (str_of ''ws'', 80), (str_of ''wss'', 443)]"

text \<open>
  A scheme is a text or \<open>None\<close> (what \<open>parse\<close> stores when it falls back on a
  \<open>default_scheme\<close> that is \<open>None\<close>); \<open>None\<close> is no key of the table.
\<close>

definition scheme_port :: "str option \<Rightarrow> int option" where
  "scheme_port sch = (case sch of None \<Rightarrow> None | Some s \<Rightarrow> RELATIVE_SCHEME_DEFAULT_PORTS s)"

text \<open>Truth of an optional text or number in a condition, and \<open>x or ''\<close>.\<close>

definition truthy :: "str option \<Rightarrow> bool" where
  "truthy s = (case s of None \<Rightarrow> False | Some t \<Rightarrow> t \<noteq> [])"

definition truthy_int :: "int option \<Rightarrow> bool" where
  "truthy_int p = (case p of None \<Rightarrow> False | Some n \<Rightarrow> n \<noteq> 0)"

definition or_empty :: "str option \<Rightarrow> str" where
  "or_empty s = (case s of None \<Rightarrow> [] | Some t \<Rightarrow> t)"

text \<open>\<open>'{}'.format(scheme)\<close>.\<close>

definition format_scheme :: "str option \<Rightarrow> str" where
  "format_scheme sch = (case sch of None \<Rightarrow> str_of ''None'' | Some s \<Rightarrow> s)"

text \<open>
  The addresses of the \<open>ipaddress\<close> module, by their number.
  \<open>ipaddress.IPv4Address\<close> of a text takes four octets between dots, each of one to
  three ASCII digits without a leading zero and at most 255 (the strictness of CPython
  from 3.9.5 on); of an integer it takes \<open>0 .. 2^32 - 1\<close>.
\<close>

datatype ip_address = IPv4Address nat | IPv6Address nat

definition version :: "ip_address \<Rightarrow> nat" where
  "version a = (case a of IPv4Address n \<Rightarrow> 4 | IPv6Address n \<Rightarrow> 6)"

definition parse_octet :: "str \<Rightarrow> nat option" where
  "parse_octet octet_str =
     (if octet_str = [] then None
      else if \<not> list_all (\<lambda>c. ch CHR ''0'' \<le> c \<and> c \<le> ch CHR ''9'') octet_str then None
      else if 3 < length octet_str then None
      else if octet_str \<noteq> str_of ''0'' \<and> hd octet_str = ch CHR ''0'' then None
      else (let octet_int = foldl (\<lambda>a c. 10 * a + (c - ch CHR ''0'')) 0 octet_str
            in if 255 < octet_int then None else Some octet_int))"

definition IPv4Address_str :: "str \<Rightarrow> error + nat" where
  "IPv4Address_str ip_str =
     (if ip_str = [] then Inl AddressValueError
      else (let octets = py_split (ch CHR ''.'') ip_str
            in if length octets \<noteq> 4 then Inl AddressValueError
               else if list_ex (\<lambda>octet. parse_octet octet = None) octets
               then Inl AddressValueError
               else Inr (foldl (\<lambda>a octet. 256 * a + the (parse_octet octet)) 0 octets)))"

definition IPv4Address_int :: "int \<Rightarrow> error + nat" where
  "IPv4Address_int n = (if n < 0 \<or> 2 ^ 32 \<le> n then Inl AddressValueError else Inr (nat n))"

definition compressed4 :: "nat \<Rightarrow> str" where
  "compressed4 n =
     py_join (str_of ''.'')
       (map str_nat [n div 2 ^ 24 mod 256, n div 2 ^ 16 mod 256, n div 2 ^ 8 mod 256, n mod 256])"

definition parse_ipv4_int :: "pylib \<Rightarrow> str \<Rightarrow> error + int" where
  "parse_ipv4_int lib text =
     (let base = (if startswith text (str_of ''0x'') then 16
                  else if startswith text (str_of ''0'') then 8
                  else 10)
      in py_int lib base text)"

text \<open>The loop of \<open>parse_ipv4_address\<close> over \<open>enumerate(parts)\<close>.\<close>

fun ipv4_total :: "pylib \<Rightarrow> nat \<Rightarrow> str list \<Rightarrow> int \<Rightarrow> error + int" where
  "ipv4_total lib index [] total' = Inr total'"
| "ipv4_total lib index (part # parts) total' =
     (case parse_ipv4_int lib part of
        Inl e \<Rightarrow> Inl e
      | Inr part_value \<Rightarrow>
          if part_value < 0 \<or> part_value > 255 then Inl OctetNotInRange
          else ipv4_total lib (index + 1) parts (total' + part_value * 2 ^ (24 - index * 8)))"

definition parse_ipv4_address :: "pylib \<Rightarrow> str \<Rightarrow> error + nat" where
  "parse_ipv4_address lib address' =
     (case IPv4Address_str address' of
        Inr a \<Rightarrow> Inr a
      | Inl e \<Rightarrow>
          if e \<noteq> AddressValueError then Inl e
          else (let parts = py_split (ch CHR ''.'') address'
                in if length parts = 4 then and_then (ipv4_total lib 0 parts 0) IPv4Address_int
                   else if length parts = 1
                   then and_then (parse_ipv4_int lib address') IPv4Address_int
                   else Inl NotAnIPv4Address))"

text \<open>
  The class \<open>URLInfo\<close>: its attributes, with \<open>raw\<close>, which \<open>parse\<close> adds for a
  scheme outside the table. \<open>URLInfo_init\<close> is the constructor called with a scheme
  only. A setter that raises leaves the object partly assigned; the model returns the
  error alone, as \<open>parse\<close> then drops the object.
\<close>

record URLInfo =
  scheme :: "str option"
  hostname :: "str option"
  port :: "int option"
  encoding :: codec
  query_encoding :: codec
  errors :: errors
  username :: "str option"
  password :: "str option"
  path :: "str option"
  query :: "str option"
  fragment :: "str option"
  address :: "ip_address option"
  raw :: "str option"

definition URLInfo_init :: "str option \<Rightarrow> URLInfo" where
  "URLInfo_init sch =
     \<lparr> scheme = sch, hostname = None, port = None, encoding = utf_8, query_encoding = utf_8,
       errors = Strict, username = None, password = None, path = None, query = None,
       fragment = None, address = None, raw = None \<rparr>"

text \<open>The properties, from the innermost. \<open>percent_encode\<close> in \<open>userinfo\<close> is called
  with its defaults, UTF-8 and \<open>strict\<close>.\<close>

definition userinfo :: "URLInfo \<Rightarrow> error + str" where
  "userinfo self =
     (if truthy (username self) \<or> truthy (password self) then
        and_then (percent_encode (or_empty (username self)) USERNAME_ENCODE_SET utf_8 Strict) (\<lambda>u.
        and_then (percent_encode (or_empty (password self)) PASSWORD_ENCODE_SET utf_8 Strict) (\<lambda>p.
          Inr (u @ (if truthy (password self) then str_of '':'' else []) @ p)))
      else Inr [])"

definition is_ipv6 :: "URLInfo \<Rightarrow> error + bool" where
  "is_ipv6 self =
     (if (case address self of None \<Rightarrow> False | Some a \<Rightarrow> version a = 6) then Inr True
      else (case hostname self of
              None \<Rightarrow> Inl TypeError
            | Some h \<Rightarrow> Inr (ch CHR '':'' \<in> set h)))"

definition host :: "URLInfo \<Rightarrow> error + str" where
  "host self =
     (if \<not> truthy (hostname self) then Inr []
      else and_then (is_ipv6 self) (\<lambda>v6.
        let hostname' = (if v6 then str_of ''['' @ or_empty (hostname self) @ str_of '']''
                         else or_empty (hostname self))
        in if truthy_int (port self) then
             (case scheme_port (scheme self) of
                None \<Rightarrow> Inl KeyError
              | Some d \<Rightarrow>
                  if Some d \<noteq> port self
                  then Inr (hostname' @ str_of '':'' @ str_int (the (port self)))
                  else Inr hostname')
           else Inr hostname'))"

definition authority :: "URLInfo \<Rightarrow> error + str" where
  "authority self =
     and_then (userinfo self) (\<lambda>u.
       if u \<noteq> [] then and_then (host self) (\<lambda>h. Inr (u @ str_of ''@'' @ h))
       else host self)"

definition origin :: "URLInfo \<Rightarrow> error + str" where
  "origin self =
     and_then (host self) (\<lambda>h.
       if h \<noteq> [] then
         and_then (authority self) (\<lambda>a. Inr (format_scheme (scheme self) @ str_of ''://'' @ a))
       else
         and_then (authority self) (\<lambda>a. Inr (format_scheme (scheme self) @ str_of '':'' @ a)))"

definition resource :: "URLInfo \<Rightarrow> error + str" where
  "resource self =
     (let path' = (if truthy (path self) then or_empty (path self) else str_of ''/'');
          parts = [path'];
          parts = (if scheme_port (scheme self) \<noteq> None \<and> hd path' \<noteq> ch CHR ''/''
                   then str_of ''/'' # parts else parts)
      in and_then
           (if truthy (query self) then
              and_then (percent_encode_plus (or_empty (query self)) QUERY_ENCODE_SET
                          (query_encoding self) (errors self))
                (\<lambda>q. Inr (parts @ [str_of ''?'', q]))
            else Inr parts)
           (\<lambda>parts. Inr (concat (if truthy (fragment self)
                                   then parts @ [str_of ''#'', or_empty (fragment self)]
                                   else parts))))"

definition url :: "URLInfo \<Rightarrow> error + str" where
  "url self = and_then (origin self) (\<lambda>a. and_then (resource self) (\<lambda>r. Inr (a @ r)))"

text \<open>The class methods that cut a text into its parts.\<close>

definition parse_authority :: "str \<Rightarrow> str \<times> str" where
  "parse_authority authority' =
     (case py_partition (ch CHR ''@'') authority' of (userinfo', sep, host') \<Rightarrow>
        if sep = [] then ([], userinfo') else (userinfo', host'))"

definition parse_userinfo :: "str \<Rightarrow> str \<times> str" where
  "parse_userinfo userinfo' =
     (case py_partition (ch CHR '':'') userinfo' of (username', sep, password') \<Rightarrow>
        (username', password'))"

definition parse_ipv6_hostname :: "pylib \<Rightarrow> str \<Rightarrow> error + (str \<times> ip_address option)" where
  "parse_ipv6_hostname lib hostname' =
     (if \<not> startswith hostname' (str_of ''['') \<or> \<not> endswith hostname' (str_of '']'')
      then Inl InvalidIPv6Address
      else and_then (ipv6 lib (butlast (tl hostname')))
             (\<lambda>(compressed, n). Inr (compressed, Some (IPv6Address n))))"

definition parse_hostname :: "pylib \<Rightarrow> str \<Rightarrow> error + (str \<times> ip_address option)" where
  "parse_hostname lib hostname' =
     (if startswith hostname' (str_of ''['') then parse_ipv6_hostname lib hostname'
      else if hostname' = [] then Inl EmptyHostname
      else (case parse_ipv4_address lib hostname' of
              Inr a \<Rightarrow> Inr (compressed4 a, Some (IPv4Address a))
            | Inl e \<Rightarrow>
                if \<not> is_ValueError e then Inl e
                else and_then (normalize_hostname lib hostname') (\<lambda>new_hostname.
                       if \<exists>c \<in> FORBIDDEN_HOSTNAME_CHARS. c \<in> set new_hostname
                       then Inl InvalidHostname
                       else Inr (new_hostname, None))))"

definition parse_host ::
  "pylib \<Rightarrow> str \<Rightarrow> error + ((str \<times> ip_address option) \<times> int option)" where
  "parse_host lib host' =
     (if endswith host' (str_of '']'') then
        and_then (parse_hostname lib host') (\<lambda>h. Inr (h, None))
      else (case py_rpartition (ch CHR '':'') host' of (hostname', sep, port') \<Rightarrow>
              if sep \<noteq> [] then
                and_then (py_int lib 10 port') (\<lambda>p.
                  if p < 0 \<or> p > 65535 then Inl PortNumberInvalid
                  else and_then (parse_hostname lib hostname') (\<lambda>h. Inr (h, Some p)))
              else and_then (parse_hostname lib port') (\<lambda>h. Inr (h, None))))"

text \<open>
  \<open>re.match(r'(.*?)($|[#?])(.*)', resource)\<close> on a text without a line feed (\<open>parse\<close>
  has refused control characters before): the path ends before the first \<open>#\<close> or \<open>?\<close>.
\<close>

definition is_query_or_fragment_sign :: "nat \<Rightarrow> bool" where
  "is_query_or_fragment_sign c = (c = ch CHR ''#'' \<or> c = ch CHR ''?'')"

definition parse_resource :: "str \<Rightarrow> str \<times> str \<times> str" where
  "parse_resource resource' =
     (let path' = takeWhile (\<lambda>c. \<not> is_query_or_fragment_sign c) resource';
          rest = dropWhile (\<lambda>c. \<not> is_query_or_fragment_sign c) resource';
          sep = take 1 rest;
          remain = drop 1 rest
      in if sep = str_of ''?'' then
           (case py_partition (ch CHR ''#'') remain of (query', sep', fragment') \<Rightarrow>
              (path', query', fragment'))
         else if sep = str_of ''#'' then (path', [], remain)
         else (path', [], []))"

text \<open>The setters.\<close>

definition set_userinfo :: "URLInfo \<Rightarrow> str \<Rightarrow> error + URLInfo" where
  "set_userinfo self new_userinfo =
     (case parse_userinfo new_userinfo of (username', password') \<Rightarrow>
        and_then (percent_decode username' (encoding self) (errors self)) (\<lambda>u.
        and_then (percent_decode password' (encoding self) (errors self)) (\<lambda>p.
          Inr (self\<lparr>username := Some u, password := Some p\<rparr>))))"

definition set_host :: "pylib \<Rightarrow> URLInfo \<Rightarrow> str \<Rightarrow> error + URLInfo" where
  "set_host lib self new_host =
     and_then (parse_host lib new_host) (\<lambda>((hostname', address'), port').
       let self1 = self\<lparr>hostname := Some hostname', address := address', port := port'\<rparr>
       in Inr (if \<not> truthy_int (port self1)
               then self1\<lparr>port := scheme_port (scheme self1)\<rparr>
               else self1))"

definition set_authority :: "pylib \<Rightarrow> URLInfo \<Rightarrow> str \<Rightarrow> error + URLInfo" where
  "set_authority lib self new_authority =
     (case parse_authority new_authority of (userinfo', host') \<Rightarrow>
        and_then (set_userinfo self userinfo') (\<lambda>self1. set_host lib self1 host'))"

definition set_resource :: "URLInfo \<Rightarrow> str \<Rightarrow> error + URLInfo" where
  "set_resource self new_resource =
     (case parse_resource new_resource of (path', query', fragment') \<Rightarrow>
        and_then (normalize_path path' (encoding self) (errors self)) (\<lambda>p.
        and_then (normalize_query query' (query_encoding self) (errors self)) (\<lambda>q.
          Inr (self\<lparr>path := Some p, query := Some q, fragment := Some fragment'\<rparr>))))"

text \<open>
  \<open>re.match(r'/*(.*?)($|[/?#].*)', remaining)\<close> on a text without a line feed: the
  leading slashes are skipped, the authority ends before the first \<open>/\<close>, \<open>?\<close> or
  \<open>#\<close>, the resource is the rest.
\<close>

definition is_resource_start :: "nat \<Rightarrow> bool" where
  "is_resource_start c = (c = ch CHR ''/'' \<or> c = ch CHR ''?'' \<or> c = ch CHR ''#'')"

definition match_authority :: "str \<Rightarrow> str \<times> str" where
  "match_authority remaining =
     (let r = dropWhile (\<lambda>c. c = ch CHR ''/'') remaining
      in (takeWhile (\<lambda>c. \<not> is_resource_start c) r, dropWhile (\<lambda>c. \<not> is_resource_start c) r))"

text \<open>
  \<open>URLInfo.parse\<close>. Its defaults are \<open>default_scheme='http'\<close>,
  \<open>encoding='utf-8'\<close>, \<open>query_encoding='utf-8'\<close> and \<open>errors='strict'\<close>.
\<close>

definition parse ::
  "pylib \<Rightarrow> str \<Rightarrow> str option \<Rightarrow> codec \<Rightarrow> codec \<Rightarrow> errors \<Rightarrow> error + URLInfo" where
  "parse lib url0 default_scheme enc qenc e =
     (let url' = py_strip url0
      in if set url' \<inter> C0_CONTROL_SET \<noteq> {} then Inl URLContainsControlCodes
         else (case py_partition (ch CHR '':'') url' of (scheme0, sep, remaining0) \<Rightarrow>
           if scheme0 = [] then Inl URLMissingScheme
           else if sep = [] \<and> \<not> truthy default_scheme then Inl URIMissingColon
           else
             (let scheme1 = (if sep = [] then or_empty default_scheme
                             else py_lower lib scheme0);
                  remaining1 = (if sep = [] then url' else remaining0);
                  reclassify = ((truthy default_scheme \<and> ch CHR ''.'' \<in> set scheme1)
                                \<or> scheme1 = str_of ''localhost'');
                  remaining = (if reclassify then scheme1 @ str_of '':'' @ remaining1
                               else remaining1);
                  scheme2 = (if reclassify then default_scheme else Some scheme1);
                  info = (URLInfo_init scheme2)
                           \<lparr>encoding := enc, query_encoding := qenc, errors := e\<rparr>
              in if scheme_port scheme2 = None then
                   Inr (info\<lparr>raw := Some url', scheme := scheme2, path := Some remaining\<rparr>)
                 else (case match_authority remaining of (authority', resource') \<Rightarrow>
                         and_then (set_authority lib info authority')
                           (\<lambda>info1. set_resource info1 resource')))))"

abbreviation parse_default :: "pylib \<Rightarrow> str \<Rightarrow> error + URLInfo" where
  "parse_default lib url0 \<equiv> parse lib url0 (Some (str_of ''http'')) utf_8 utf_8 Strict"


section \<open>Functions and predicates of the statements\<close>

text \<open>
  The rule of the specification for one byte: a C0 control byte, a byte from \<open>0x7F\<close> on
  and a byte of the escape set become \<open>%XX\<close>, any other byte stays.
\<close>

definition escape_rule :: "char set \<Rightarrow> char \<Rightarrow> bytes" where
  "escape_rule S c =
     (if (of_char c :: nat) \<le> 0x1F \<or> (0x7F :: nat) \<le> of_char c \<or> c \<in> S
      then [CHR ''%'', hex_upper (of_char c div 16), hex_upper (of_char c mod 16)]
      else [c])"

text \<open>
  The invariant of the encoder cache: every map is filed under its own encode set and
  every item it holds is the one \<open>__missing__\<close> computes.
\<close>

definition items_ok :: "PercentEncoderMap \<Rightarrow> bool" where
  "items_ok m = (\<forall>c r. items m c = Some r \<longrightarrow> r = escape_rule (encode_set m) c)"

definition cache_ok :: "encoder_cache \<Rightarrow> bool" where
  "cache_ok cache = (\<forall>S m. cache S = Some m \<longrightarrow> encode_set m = S \<and> items_ok m)"

text \<open>
  The collapsing of slashes as the specification words it, "replace any run of \<open>/\<close>
  with a single \<open>/\<close>": a slash that is followed by a slash is dropped.
\<close>

fun single_slashes :: "str \<Rightarrow> str" where
  "single_slashes (c # d # cs) =
     (if c = ch CHR ''/'' \<and> d = ch CHR ''/'' then single_slashes (d # cs)
      else c # single_slashes (d # cs))"
| "single_slashes cs = cs"

text \<open>
  The \<open>ValueError\<close>s by the place that raises them: \<open>parse\<close> itself for a URL it
  cannot cut, \<open>parse_hostname\<close> and \<open>parse_ipv6_hostname\<close> for a host they refuse.
\<close>

definition host_error :: "error \<Rightarrow> bool" where
  "host_error e = (e = EmptyHostname \<or> e = InvalidHostname \<or> e = InvalidIPv6Address)"

definition url_error :: "error \<Rightarrow> bool" where
  "url_error e = (e = URLContainsControlCodes \<or> e = URLMissingScheme \<or> e = URIMissingColon)"

text \<open>
  A well-formed escape somewhere in a text: a \<open>%\<close> that two hexadecimal digits
  follow.
\<close>

fun has_escape :: "str \<Rightarrow> bool" where
  "has_escape (c # h # l # rest) =
     ((c = ch CHR ''%'' \<and> is_hexdigit h \<and> is_hexdigit l) \<or> has_escape (h # l # rest))"
| "has_escape cs = False"

text \<open>
  A library that knows one IPv6 address, the loopback address, and the IDNA encoding
  of one name that is not ASCII, \<open>U+00E9\<close>, to run the model on them.
\<close>

definition sample_lib :: pylib where
  "sample_lib =
     ascii_lib\<lparr>idna_unicode := (\<lambda>s. if s = [0xE9] then Inr ''xn--9ca'' else Inl UnicodeError),
               ipv6 := (\<lambda>s. if s = str_of ''::1'' then Inr (str_of ''::1'', 1)
                            else Inl AddressValueError)\<rparr>"

section \<open>Path flattening\<close>

lemma py_split_not_Nil: "py_split c xs \<noteq> []"
  by (induction xs) (auto split: list.splits)

lemma py_join_split: "py_join [c] (py_split c xs) = xs"
proof (induction xs)
  case Nil
  show ?case by simp
next
  case (Cons x xs)
  obtain p ps where ps: "py_split c xs = p # ps"
    using py_split_not_Nil [of c xs] by (cases "py_split c xs") auto
  show ?case
  proof (cases "x = c")
    case True
    with Cons ps show ?thesis by simp
  next
    case False
    with Cons ps show ?thesis by (cases ps) auto
  qed
qed

lemma py_split_no_sep: "p \<in> set (py_split c xs) \<Longrightarrow> c \<notin> set p"
  by (induction xs arbitrary: p) (auto split: list.splits if_splits)

lemma flatten_step_no_dots:
  "str_of ''.'' \<notin> set acc \<Longrightarrow> str_of ''..'' \<notin> set acc \<Longrightarrow>
   str_of ''.'' \<notin> set (flatten_step acc part) \<and> str_of ''..'' \<notin> set (flatten_step acc part)"
  by (auto simp: flatten_step_def dest: in_set_butlastD)

lemma foldl_flatten_step_no_dots:
  "str_of ''.'' \<notin> set acc \<Longrightarrow> str_of ''..'' \<notin> set acc \<Longrightarrow>
   str_of ''.'' \<notin> set (foldl flatten_step acc parts) \<and>
   str_of ''..'' \<notin> set (foldl flatten_step acc parts)"
proof (induction parts arbitrary: acc)
  case Nil
  then show ?case by simp
next
  case (Cons part parts)
  from flatten_step_no_dots [OF Cons.prems]
  show ?case using Cons.IH [of "flatten_step acc part"] by simp
qed

lemma sub_slashes_dropWhile:
  "sub_slashes (ch CHR ''/'' # dropWhile (\<lambda>d. d = ch CHR ''/'') cs) = sub_slashes (ch CHR ''/'' # cs)"
  by simp

lemma sub_slashes_no_double: "\<not> double_slash (sub_slashes s)"
proof (induction s rule: sub_slashes.induct)
  case 1
  show ?case by simp
next
  case (2 c cs)
  show ?case
  proof (cases "c = ch CHR ''/''")
    case True
    let ?r = "dropWhile (\<lambda>d. d = ch CHR ''/'') cs"
    have ih: "\<not> double_slash (sub_slashes ?r)" using 2(1) True by simp
    have eq: "sub_slashes (c # cs) = ch CHR ''/'' # sub_slashes ?r" using True by simp
    show ?thesis
    proof (cases ?r)
      case Nil
      then have "sub_slashes ?r = []" by (simp only: sub_slashes.simps)
      with eq have "sub_slashes (c # cs) = [ch CHR ''/'']" by (simp only:)
      then show ?thesis by simp
    next
      case (Cons d ds)
      then have d: "d \<noteq> ch CHR ''/''" by (auto simp: dropWhile_eq_Cons_conv)
      from Cons have "sub_slashes ?r = sub_slashes (d # ds)" by (simp only:)
      with d have r: "sub_slashes ?r = d # sub_slashes ds" by simp
      from ih r have "\<not> double_slash (d # sub_slashes ds)" by simp
      with d have "\<not> double_slash (ch CHR ''/'' # d # sub_slashes ds)" by simp
      with eq r show ?thesis by simp
    qed
  next
    case False
    with 2(2) show ?thesis by (cases "sub_slashes cs") auto
  qed
qed

lemma sub_slashes_id: "\<not> double_slash s \<Longrightarrow> sub_slashes s = s"
proof (induction s rule: sub_slashes.induct)
  case 1
  show ?case by simp
next
  case (2 c cs)
  show ?case
  proof (cases "c = ch CHR ''/''")
    case True
    with "2.prems" have "cs = [] \<or> hd cs \<noteq> ch CHR ''/''" by (cases cs) auto
    then have dw: "dropWhile (\<lambda>d. d = ch CHR ''/'') cs = cs" by (cases cs) auto
    from "2.prems" have "\<not> double_slash cs" by (cases cs) auto
    with 2(1) True dw show ?thesis by simp
  next
    case False
    from "2.prems" have "\<not> double_slash cs" by (cases cs) auto
    with 2(2) False show ?thesis by simp
  qed
qed

lemma single_slashes_run:
  "single_slashes (ch CHR ''/'' # cs) =
   ch CHR ''/'' # single_slashes (dropWhile (\<lambda>d. d = ch CHR ''/'') cs)"
proof (induction cs)
  case Nil
  show ?case by simp
next
  case (Cons d ds)
  then show ?case by (cases ds) auto
qed

lemma single_slashes_other:
  "c \<noteq> ch CHR ''/'' \<Longrightarrow> single_slashes (c # cs) = c # single_slashes cs"
  by (cases cs) auto

lemma sub_slashes_single: "sub_slashes s = single_slashes s"
proof (induction s rule: sub_slashes.induct)
  case 1
  show ?case by simp
next
  case (2 c cs)
  show ?case
  proof (cases "c = ch CHR ''/''")
    case True
    with 2(1) show ?thesis using single_slashes_run [of cs] by simp
  next
    case False
    with 2(2) show ?thesis using single_slashes_other [of c cs] by simp
  qed
qed

lemma flatten_path_ex1: "flatten_path (str_of ''dog/cat/../bird'') False = str_of ''dog/bird''"
  by (simp add: flatten_path_def flatten_step_def)

lemma flatten_path_ex2: "flatten_path (str_of ''../../'') False = []"
  by (simp add: flatten_path_def flatten_step_def)

lemma flatten_path_ex3: "flatten_path (str_of ''a////../../b'') True = str_of ''a/b''"
  by (simp add: flatten_path_def flatten_step_def)

text \<open>
  C6. \<open>flatten_path\<close> splits the path on \<open>/\<close> (the segments hold no slash and rejoin to
  the path); a segment \<open>.\<close> leaves the retained segments as they are, a segment \<open>..\<close>
  removes the last retained segment if there is one and otherwise changes nothing, any
  other segment (the empty one too) is appended; the retained segments, which hold no
  dot segment, are joined with \<open>/\<close>; only with \<open>flatten_slashes\<close> every run of slashes of
  that result becomes a single slash. Three paths of the tests are evaluated.
\<close>

theorem flatten_path_correct:
  "py_join (str_of ''/'') (py_split (ch CHR ''/'') p) = p
   \<and> (\<forall>s \<in> set (py_split (ch CHR ''/'') p). ch CHR ''/'' \<notin> set s)
   \<and> flatten_step acc (str_of ''.'') = acc
   \<and> flatten_step acc (str_of ''..'') = butlast acc
   \<and> (seg \<noteq> str_of ''.'' \<and> seg \<noteq> str_of ''..'' \<longrightarrow> flatten_step acc seg = acc @ [seg])
   \<and> flatten_path p False =
       py_join (str_of ''/'') (foldl flatten_step [] (py_split (ch CHR ''/'') p))
   \<and> str_of ''.'' \<notin> set (foldl flatten_step [] (py_split (ch CHR ''/'') p))
   \<and> str_of ''..'' \<notin> set (foldl flatten_step [] (py_split (ch CHR ''/'') p))
   \<and> flatten_path p True = single_slashes (flatten_path p False)
   \<and> \<not> double_slash (flatten_path p True)
   \<and> (\<not> double_slash (flatten_path p False) \<longrightarrow> flatten_path p True = flatten_path p False)
   \<and> flatten_path (str_of ''dog/cat/../bird'') False = str_of ''dog/bird''
   \<and> flatten_path (str_of ''../../'') False = []
   \<and> flatten_path (str_of ''a////../../b'') True = str_of ''a/b''"
proof -
  let ?kept = "foldl flatten_step [] (py_split (ch CHR ''/'') p)"
  have split: "py_join (str_of ''/'') (py_split (ch CHR ''/'') p) = p"
    using py_join_split [of "ch CHR ''/''" p] by simp
  have segs: "\<forall>s \<in> set (py_split (ch CHR ''/'') p). ch CHR ''/'' \<notin> set s"
    by (auto dest: py_split_no_sep)
  have dot: "flatten_step acc (str_of ''.'') = acc"
    by (simp add: flatten_step_def)
  have dotdot: "flatten_step acc (str_of ''..'') = butlast acc"
    by (simp add: flatten_step_def)
  have other: "seg \<noteq> str_of ''.'' \<and> seg \<noteq> str_of ''..'' \<longrightarrow> flatten_step acc seg = acc @ [seg]"
    by (simp add: flatten_step_def)
  have plain: "flatten_path p False = py_join (str_of ''/'') ?kept"
    by (simp add: flatten_path_def)
  have nodots: "str_of ''.'' \<notin> set ?kept \<and> str_of ''..'' \<notin> set ?kept"
    using foldl_flatten_step_no_dots [of "[]"] by simp
  have sub: "flatten_path p True = sub_slashes (flatten_path p False)"
    by (simp add: flatten_path_def)
  have collapsed: "flatten_path p True = single_slashes (flatten_path p False)"
    using sub sub_slashes_single by simp
  have nodouble: "\<not> double_slash (flatten_path p True)"
    using sub sub_slashes_no_double by simp
  have same: "\<not> double_slash (flatten_path p False) \<longrightarrow> flatten_path p True = flatten_path p False"
    using sub sub_slashes_id by simp
  from split segs dot dotdot other plain nodots collapsed nodouble same
    flatten_path_ex1 flatten_path_ex2 flatten_path_ex3
  show ?thesis by blast
qed

theorem flatten_path_correct_witness:
  "flatten_path (str_of ''/a/./b//../../c'') False = str_of ''/a/c''
   \<and> flatten_path (str_of ''a//b///c'') True = str_of ''a/b/c''
   \<and> flatten_step [str_of ''a''] (str_of ''b'') = [str_of ''a'', str_of ''b'']
   \<and> \<not> double_slash (flatten_path (str_of ''/a/./b//../../c'') False)
   \<and> flatten_path (str_of ''/a/./b//../../c'') True = str_of ''/a/c''"
proof -
  note w = flatten_path_correct [of "str_of ''/a/./b//../../c''" "[str_of ''a'']" "str_of ''b''"]
  have e1: "flatten_path (str_of ''/a/./b//../../c'') False = str_of ''/a/c''"
    by (simp add: flatten_path_def flatten_step_def)
  have e2: "flatten_path (str_of ''a//b///c'') True = str_of ''a/b/c''"
    by (simp add: flatten_path_def flatten_step_def)
  have e3: "flatten_step [str_of ''a''] (str_of ''b'') = [str_of ''a'', str_of ''b'']"
    using w by simp
  have e4: "\<not> double_slash (flatten_path (str_of ''/a/./b//../../c'') False)"
    unfolding e1 by simp
  have e5: "flatten_path (str_of ''/a/./b//../../c'') True = str_of ''/a/c''"
    using w e4 e1 by simp
  from e1 e2 e3 e4 e5 show ?thesis by blast
qed

section \<open>Percent-encoding of bytes\<close>

lemma hex_upper_digit:
  "d < 16 \<Longrightarrow> hex_upper d \<in> set ''0123456789ABCDEF'' \<and> digit_value (of_char (hex_upper d)) = d"
proof -
  assume "d < 16"
  then have "d \<in> set [0..<16]" by simp
  then show ?thesis
    by (simp add: upt_rec hex_upper_def digit_value_def) (elim disjE; simp)
qed

lemma missing_rule: "fst (missing m c) = escape_rule (encode_set m) c"
  by (auto simp: missing_def escape_rule_def format_02X_def Let_def)

lemma missing_ok:
  "items_ok m \<Longrightarrow> items_ok (snd (missing m c)) \<and> encode_set (snd (missing m c)) = encode_set m"
  using missing_rule [of m c] by (simp add: items_ok_def missing_def Let_def)

lemma getitem_rule:
  "items_ok m \<Longrightarrow>
   fst (getitem m c) = escape_rule (encode_set m) c \<and> items_ok (snd (getitem m c))
   \<and> encode_set (snd (getitem m c)) = encode_set m"
proof (cases "items m c")
  case None
  assume "items_ok m"
  with None show ?thesis
    using missing_rule [of m c] missing_ok [of m c] by (simp add: getitem_def)
next
  case (Some r)
  assume ok: "items_ok m"
  with Some have "r = escape_rule (encode_set m) c" by (simp add: items_ok_def)
  with Some ok show ?thesis by (simp add: getitem_def)
qed

lemma join_items_rule:
  "items_ok m \<Longrightarrow>
   fst (join_items m data) = concat (map (escape_rule (encode_set m)) data)
   \<and> items_ok (snd (join_items m data))
   \<and> encode_set (snd (join_items m data)) = encode_set m"
proof (induction data arbitrary: m)
  case Nil
  then show ?case by simp
next
  case (Cons c cs)
  obtain r m1 where g: "getitem m c = (r, m1)" by (cases "getitem m c")
  obtain rs m2 where j: "join_items m1 cs = (rs, m2)" by (cases "join_items m1 cs")
  from getitem_rule [OF Cons.prems, of c] g
  have r: "r = escape_rule (encode_set m) c" and ok1: "items_ok m1"
    and es1: "encode_set m1 = encode_set m" by simp_all
  from Cons.IH [OF ok1] j es1
  have "rs = concat (map (escape_rule (encode_set m)) cs)" and "items_ok m2"
    and "encode_set m2 = encode_set m" by simp_all
  with r g j show ?case by simp
qed

lemma cache_ok_update:
  "cache_ok cache \<Longrightarrow> items_ok m \<Longrightarrow> encode_set m = S \<Longrightarrow> cache_ok (cache(S \<mapsto> m))"
  unfolding cache_ok_def by (simp add: fun_upd_def)

lemma get_percent_encoder_map_ok:
  assumes "cache_ok cache" and "get_percent_encoder_map cache S = (m, cache1)"
  shows "items_ok m \<and> encode_set m = S \<and> cache_ok cache1"
proof (cases "cache S")
  case None
  with assms(2) have m: "m = \<lparr> encode_set = S, items = Map.empty \<rparr>"
    and c1: "cache1 = cache(S \<mapsto> m)"
    by (auto simp: get_percent_encoder_map_def Let_def)
  from m have ok: "items_ok m" and es: "encode_set m = S" by (simp_all add: items_ok_def)
  with assms(1) c1 show ?thesis using cache_ok_update [of cache m S] by simp
next
  case (Some m0)
  with assms(2) have "m = m0" and "cache1 = cache"
    by (simp_all add: get_percent_encoder_map_def)
  with Some assms(1) show ?thesis by (simp add: cache_ok_def)
qed

lemma percent_encode_bytes_ok:
  assumes "cache_ok cache"
  shows "fst (percent_encode_bytes cache data S) = concat (map (escape_rule S) data)
         \<and> cache_ok (snd (percent_encode_bytes cache data S))"
proof -
  obtain m cache1 where g: "get_percent_encoder_map cache S = (m, cache1)"
    by (cases "get_percent_encoder_map cache S")
  obtain result m1 where j: "join_items m data = (result, m1)"
    by (cases "join_items m data")
  from get_percent_encoder_map_ok [OF assms g]
  have ok: "items_ok m" and es: "encode_set m = S" and c1: "cache_ok cache1" by simp_all
  from join_items_rule [OF ok, of data] j es
  have res: "result = concat (map (escape_rule S) data)" and ok1: "items_ok m1"
    and es1: "encode_set m1 = S" by simp_all
  have "cache_ok (cache1(S \<mapsto> m1))"
    using c1 ok1 es1 by (rule cache_ok_update)
  with res g j show ?thesis by (simp add: percent_encode_bytes_def)
qed

lemma cache_ok_empty: "cache_ok Map.empty"
  by (simp add: cache_ok_def)

lemma of_char_div16: "(of_char (c::char) :: nat) div 16 < 16"
proof -
  have "(of_char c :: nat) < 256" by simp
  then show ?thesis by arith
qed

lemma percent_encode_bytes_any_cache:
  "cache_ok cache \<Longrightarrow> fst (percent_encode_bytes cache data S) = encoded data S"
  using percent_encode_bytes_ok [of cache data S] percent_encode_bytes_ok [OF cache_ok_empty, of data S]
  by (simp add: encoded_def)

lemma encoded_rule: "encoded data S = concat (map (escape_rule S) data)"
  using percent_encode_bytes_ok [OF cache_ok_empty, of data S] by (simp add: encoded_def)

text \<open>
  C5. From every state of the encoder cache that satisfies its invariant (the empty
  cache of the module does), \<open>percent_encode_bytes\<close> returns the bytes of the input in
  order, each byte in \<open>0x00..0x1F\<close>, each byte from \<open>0x7F\<close> on and each byte of the
  escape set replaced by \<open>%\<close> and two upper-case hexadecimal digits that give its
  value, every other byte unchanged; the cache it returns satisfies the invariant again.
\<close>

theorem percent_encode_bytes_rule:
  "cache_ok cache \<Longrightarrow>
     fst (percent_encode_bytes cache data S) = concat (map (escape_rule S) data)
     \<and> cache_ok (snd (percent_encode_bytes cache data S))
     \<and> hex_upper (of_char c div 16) \<in> set ''0123456789ABCDEF''
     \<and> hex_upper (of_char c mod 16) \<in> set ''0123456789ABCDEF''
     \<and> 16 * digit_value (of_char (hex_upper (of_char c div 16)))
        + digit_value (of_char (hex_upper (of_char c mod 16))) = (of_char c :: nat)"
proof -
  assume ok: "cache_ok cache"
  have hi: "(of_char c :: nat) div 16 < 16" by (rule of_char_div16)
  have lo: "(of_char c :: nat) mod 16 < 16" by simp
  from hex_upper_digit [OF hi] hex_upper_digit [OF lo]
  have digits: "hex_upper (of_char c div 16) \<in> set ''0123456789ABCDEF''
     \<and> hex_upper (of_char c mod 16) \<in> set ''0123456789ABCDEF''
     \<and> 16 * digit_value (of_char (hex_upper (of_char c div 16)))
        + digit_value (of_char (hex_upper (of_char c mod 16))) = (of_char c :: nat)"
    by (simp del: set_simps)
  from percent_encode_bytes_ok [OF ok, of data S] digits show ?thesis by blast
qed

theorem percent_encode_bytes_rule_witness:
  "cache_ok Map.empty
   \<and> fst (percent_encode_bytes Map.empty [CHR ''a'', CHR '' '', CHR 0x01, CHR ''%'', CHR 0x7F, CHR 0xC3, CHR ''~'']
            DEFAULT_ENCODE_SET) = ''a%20%01%%7F%C3~''
   \<and> hex_upper (of_char (CHR 0xC3) div 16) = CHR ''C''"
proof -
  note w = percent_encode_bytes_rule [OF cache_ok_empty,
      of "[CHR ''a'', CHR '' '', CHR 0x01, CHR ''%'', CHR 0x7F, CHR 0xC3, CHR ''~'']"
         DEFAULT_ENCODE_SET "CHR 0xC3"]
  have "fst (percent_encode_bytes Map.empty [CHR ''a'', CHR '' '', CHR 0x01, CHR ''%'', CHR 0x7F, CHR 0xC3, CHR ''~'']
            DEFAULT_ENCODE_SET) = ''a%20%01%%7F%C3~''"
    using w by (simp add: escape_rule_def DEFAULT_ENCODE_SET_def hex_upper_def)
  moreover have "hex_upper (of_char (CHR 0xC3) div 16) = CHR ''C''"
    by (simp add: hex_upper_def)
  ultimately show ?thesis using cache_ok_empty by blast
qed

section \<open>Evaluation of the model\<close>

text \<open>The definitions that the simplifier unfolds to run the model on a given text.\<close>

lemmas str_defs = py_strip_def py_isspace_def C0_CONTROL_SET_def truthy_def or_empty_def
  py_lower_def is_ascii_def ascii_lower_def startswith_def endswith_def py_rpartition_def

lemmas int_defs = py_int_def int_transform_def c_isspace_def int_prefix_def int_body_def

lemmas ipv4_defs = parse_ipv4_address_def IPv4Address_str_def parse_octet_def parse_ipv4_int_def
  IPv4Address_int_def compressed4_def

lemmas host_defs = set_host_def parse_host_def parse_hostname_def parse_ipv6_hostname_def
  normalize_hostname_def idna_encode_def ascii_decode_def FORBIDDEN_HOSTNAME_CHARS_def
  is_ValueError_def scheme_port_def RELATIVE_SCHEME_DEFAULT_PORTS_def truthy_int_def

lemmas decode_defs = percent_decode_def unquote_def is_hexdigit_def utf_8_def utf8_decode_def
  utf8_decode_one_def is_cont_def digit_value_def

section \<open>Scheme similarity\<close>




section \<open>Authority and user information\<close>

lemma py_partition_found:
  "c \<in> set s \<Longrightarrow> \<exists>a b. py_partition c s = (a, [c], b) \<and> s = a @ c # b \<and> c \<notin> set a"
proof (induction s)
  case Nil
  then show ?case by simp
next
  case (Cons x xs)
  show ?case
  proof (cases "x = c")
    case True
    then show ?thesis by simp
  next
    case False
    with Cons.prems have "c \<in> set xs" by simp
    from Cons.IH [OF this] obtain a b where
      "py_partition c xs = (a, [c], b)" "xs = a @ c # b" "c \<notin> set a" by blast
    with False show ?thesis by simp
  qed
qed

lemma py_partition_none: "c \<notin> set s \<Longrightarrow> py_partition c s = (s, [], [])"
  by (induction s) auto

text \<open>
  C2, as the code has it. An authority with an \<open>@\<close> is cut at its first \<open>@\<close>:
  the text before it, which holds no \<open>@\<close>, is the user information and the text
  after it is the host. The user information is cut at its first \<open>:\<close> into user name
  and password (without a \<open>:\<close> the password is empty); the authority setter
  percent-decodes both with the encoding and the error handling of the record, stores
  them and hands the host to the host setter.
\<close>

theorem parse_authority_first_at:
  assumes "ch CHR ''@'' \<in> set a"
  shows "\<exists>u h n p.
      parse_authority a = (u, h) \<and> a = u @ ch CHR ''@'' # h \<and> ch CHR ''@'' \<notin> set u
    \<and> parse_userinfo u = (n, p) \<and> ch CHR '':'' \<notin> set n
    \<and> (if ch CHR '':'' \<in> set u then u = n @ ch CHR '':'' # p else n = u \<and> p = [])
    \<and> set_authority lib self a =
        and_then (percent_decode n (encoding self) (errors self)) (\<lambda>dn.
        and_then (percent_decode p (encoding self) (errors self)) (\<lambda>dp.
          set_host lib (self\<lparr>username := Some dn, password := Some dp\<rparr>) h))"
proof -
  from py_partition_found [OF assms] obtain u h where
    part: "py_partition (ch CHR ''@'') a = (u, [ch CHR ''@''], h)"
    and a: "a = u @ ch CHR ''@'' # h" and u: "ch CHR ''@'' \<notin> set u" by blast
  from part have pa: "parse_authority a = (u, h)" by (simp add: parse_authority_def)
  obtain n sep p where pu: "py_partition (ch CHR '':'') u = (n, sep, p)"
    by (cases "py_partition (ch CHR '':'') u") auto
  then have pui: "parse_userinfo u = (n, p)" by (simp add: parse_userinfo_def)
  have colon: "ch CHR '':'' \<notin> set n
      \<and> (if ch CHR '':'' \<in> set u then u = n @ ch CHR '':'' # p else n = u \<and> p = [])"
  proof (cases "ch CHR '':'' \<in> set u")
    case True
    from py_partition_found [OF True] pu show ?thesis using True by auto
  next
    case False
    from py_partition_none [OF False] pu show ?thesis using False by auto
  qed
  have sa: "set_authority lib self a =
        and_then (percent_decode n (encoding self) (errors self)) (\<lambda>dn.
        and_then (percent_decode p (encoding self) (errors self)) (\<lambda>dp.
          set_host lib (self\<lparr>username := Some dn, password := Some dp\<rparr>) h))"
  proof (cases "percent_decode n (encoding self) (errors self)")
    case (Inl e)
    with pa pui show ?thesis by (simp add: set_authority_def set_userinfo_def)
  next
    case (Inr dn)
    with pa pui show ?thesis
      by (cases "percent_decode p (encoding self) (errors self)")
         (simp_all add: set_authority_def set_userinfo_def)
  qed
  from pa a u pui colon sa show ?thesis by blast
qed

theorem parse_authority_first_at_witness:
  "ch CHR ''@'' \<in> set (str_of ''user:p%40ss@example.com'')
   \<and> parse_authority (str_of ''user:p%40ss@example.com'')
       = (str_of ''user:p%40ss'', str_of ''example.com'')
   \<and> and_then (set_authority ascii_lib (URLInfo_init (Some (str_of ''http'')))
                  (str_of ''user:p%40ss@example.com''))
         (\<lambda>r. Inr (username r, password r, hostname r, port r))
       = Inr (Some (str_of ''user''), Some (str_of ''p@ss''), Some (str_of ''example.com''), Some 80)"
proof -
  let ?a = "str_of ''user:p%40ss@example.com''"
  let ?self = "URLInfo_init (Some (str_of ''http''))"
  have at: "ch CHR ''@'' \<in> set ?a" by simp
  have pa: "parse_authority ?a = (str_of ''user:p%40ss'', str_of ''example.com'')"
    by (simp add: parse_authority_def)
  have pu: "parse_userinfo (str_of ''user:p%40ss'') = (str_of ''user'', str_of ''p%40ss'')"
    by (simp add: parse_userinfo_def)
  from parse_authority_first_at [OF at, of ascii_lib ?self] pa pu
  have sa: "set_authority ascii_lib ?self ?a =
        and_then (percent_decode (str_of ''user'') (encoding ?self) (errors ?self)) (\<lambda>dn.
        and_then (percent_decode (str_of ''p%40ss'') (encoding ?self) (errors ?self)) (\<lambda>dp.
          set_host ascii_lib (?self\<lparr>username := Some dn, password := Some dp\<rparr>)
            (str_of ''example.com'')))"
    by auto
  have d1: "percent_decode (str_of ''user'') (encoding ?self) (errors ?self) = Inr (str_of ''user'')"
    by (simp add: decode_defs URLInfo_init_def)
  have d2: "percent_decode (str_of ''p%40ss'') (encoding ?self) (errors ?self) = Inr (str_of ''p@ss'')"
    by (simp add: decode_defs URLInfo_init_def)
  have ph: "parse_host ascii_lib (str_of ''example.com'') = Inr ((str_of ''example.com'', None), None)"
    by (simp add: host_defs ipv4_defs int_defs digit_value_def str_defs Let_def ascii_lib_def)
  have "and_then (set_authority ascii_lib ?self ?a)
         (\<lambda>r. Inr (username r, password r, hostname r, port r))
       = Inr (Some (str_of ''user''), Some (str_of ''p@ss''), Some (str_of ''example.com''), Some 80)"
    unfolding sa d1 d2 by (simp add: set_host_def ph [simplified] URLInfo_init_def scheme_port_def
        RELATIVE_SCHEME_DEFAULT_PORTS_def truthy_int_def)
  with at pa show ?thesis by blast
qed

text \<open>
  With two \<open>@\<close> the user information ends at the first, not at the last (the test
  suite expects \<open>http://@@example.com/@\<close> to be refused, as it then is for the
  \<open>@\<close> in its host).
\<close>

theorem parse_authority_last_at_counterexample:
  "parse_authority (str_of ''a@b@c'') = (str_of ''a'', str_of ''b@c'')
   \<and> parse_authority (str_of ''a@b@c'') \<noteq> (str_of ''a@b'', str_of ''c'')"
  by (simp add: parse_authority_def)

section \<open>Port of the rendered host\<close>

lemma scheme_port_values:
  "scheme_port sch = Some d \<Longrightarrow> d = 21 \<or> d = 70 \<or> d = 80 \<or> d = 443"
  by (auto simp: scheme_port_def RELATIVE_SCHEME_DEFAULT_PORTS_def split: option.splits if_splits)

lemma set_host_port:
  assumes "set_host lib r h = Inr self" and "scheme_port (scheme self) = Some d"
  shows "truthy_int (port self)"
proof -
  from assms(1) obtain hn ad p where ph: "parse_host lib h = Inr ((hn, ad), p)"
    by (cases "parse_host lib h") (auto simp: set_host_def)
  let ?self1 = "r\<lparr>hostname := Some hn, address := ad, port := p\<rparr>"
  show ?thesis
  proof (cases "truthy_int p")
    case True
    with assms(1) ph have "self = ?self1" by (simp add: set_host_def Let_def)
    then have "port self = p" by simp
    with True show ?thesis by simp
  next
    case False
    with assms(1) ph have self: "self = ?self1\<lparr>port := scheme_port (scheme r)\<rparr>"
      by (simp add: set_host_def Let_def)
    then have "scheme self = scheme r" by simp
    with assms(2) self have "port self = Some d" by simp
    with scheme_port_values [OF assms(2)] show ?thesis by (auto simp: truthy_int_def)
  qed
qed

text \<open>
  C8, as the code has it. For a record with a hostname that is not empty and a scheme
  of the table, the rendered host is the hostname (in brackets for an IPv6 address) and
  leaves out the \<open>:port\<close> suffix exactly when the port is absent, is zero, or is
  the default port of the scheme. A record that the host setter returns, as every
  record of \<open>parse\<close> with such a scheme is, has a port that is neither absent nor
  zero, so there the suffix is left out exactly when the port is the default.
\<close>

theorem host_port_omission:
  assumes "hostname self = Some hn" and "hn \<noteq> []" and "scheme_port (scheme self) = Some d"
  shows "(\<exists>b. is_ipv6 self = Inr b
     \<and> host self = Inr ((if b then str_of ''['' @ hn @ str_of '']'' else hn)
          @ (if port self = None \<or> port self = Some 0 \<or> port self = Some d then []
             else str_of '':'' @ str_int (the (port self)))))
   \<and> (\<forall>lib r h. set_host lib r h = Inr self \<longrightarrow> port self \<noteq> None \<and> port self \<noteq> Some 0)"
proof -
  have "\<exists>b. is_ipv6 self = Inr b"
    using assms(1) by (auto simp: is_ipv6_def)
  then obtain b where b: "is_ipv6 self = Inr b" by blast
  have t: "truthy (hostname self)" using assms(1,2) by (simp add: truthy_def)
  have oe: "or_empty (hostname self) = hn" using assms(1) by (simp add: or_empty_def)
  have rendered: "host self = Inr ((if b then str_of ''['' @ hn @ str_of '']'' else hn)
          @ (if port self = None \<or> port self = Some 0 \<or> port self = Some d then []
             else str_of '':'' @ str_int (the (port self))))"
  proof (cases "port self")
    case None
    with b t oe show ?thesis by (simp add: host_def truthy_int_def)
  next
    case (Some p)
    with b t oe assms(3) show ?thesis by (auto simp: host_def truthy_int_def)
  qed
  have "\<forall>lib r h. set_host lib r h = Inr self \<longrightarrow> port self \<noteq> None \<and> port self \<noteq> Some 0"
  proof (intro allI impI)
    fix lib r h
    assume "set_host lib r h = Inr self"
    from set_host_port [OF this assms(3)]
    show "port self \<noteq> None \<and> port self \<noteq> Some 0"
      by (cases "port self") (auto simp: truthy_int_def)
  qed
  with b rendered show ?thesis by blast
qed

theorem host_port_omission_witness:
  "host ((URLInfo_init (Some (str_of ''https'')))
          \<lparr>hostname := Some (str_of ''example.com''), port := Some 8080\<rparr>)
     = Inr (str_of ''example.com:8080'')
   \<and> host ((URLInfo_init (Some (str_of ''https'')))
          \<lparr>hostname := Some (str_of ''example.com''), port := Some 443\<rparr>)
     = Inr (str_of ''example.com'')"
proof -
  let ?r = "\<lambda>p. (URLInfo_init (Some (str_of ''https'')))
          \<lparr>hostname := Some (str_of ''example.com''), port := Some p\<rparr>"
  have sp: "scheme_port (scheme (?r p)) = Some 443" for p
    by (simp add: URLInfo_init_def scheme_port_def RELATIVE_SCHEME_DEFAULT_PORTS_def)
  have v6: "is_ipv6 (?r p) = Inr False" for p
    by (simp add: is_ipv6_def URLInfo_init_def)
  have s: "str_int 8080 = str_of ''8080''"
    by (simp add: str_int_def str_nat.simps)
  from host_port_omission [of "?r 8080" "str_of ''example.com''" 443, OF _ _ sp] v6 [of 8080] s
  have a: "host (?r 8080) = Inr (str_of ''example.com:8080'')" by auto
  from host_port_omission [of "?r 443" "str_of ''example.com''" 443, OF _ _ sp] v6 [of 443]
  have b: "host (?r 443) = Inr (str_of ''example.com'')" by auto
  from a b show ?thesis by blast
qed

text \<open>
  A record made by the constructor with a hostname and no port is rendered without a
  port, though its port is not the default of its scheme.
\<close>

theorem host_port_omission_counterexample:
  "host ((URLInfo_init (Some (str_of ''http'')))\<lparr>hostname := Some (str_of ''example.com'')\<rparr>)
     = Inr (str_of ''example.com'')
   \<and> port ((URLInfo_init (Some (str_of ''http'')))\<lparr>hostname := Some (str_of ''example.com'')\<rparr>)
     \<noteq> scheme_port (Some (str_of ''http''))"
  by (simp add: host_def is_ipv6_def URLInfo_init_def truthy_def truthy_int_def or_empty_def
      scheme_port_def RELATIVE_SCHEME_DEFAULT_PORTS_def)

lemmas parse_defs = parse_def URLInfo_init_def match_authority_def is_resource_start_def
  set_authority_def parse_authority_def set_userinfo_def parse_userinfo_def

lemmas resource_defs = set_resource_def parse_resource_def is_query_or_fragment_sign_def
  normalize_path_def normalize_query_def percent_encode_plus_def percent_encode_def py_replace_def
  encoded_rule escape_rule_def DEFAULT_ENCODE_SET_def QUERY_ENCODE_SET_def hex_upper_def
  utf8_encode_cp_def flatten_path_def flatten_step_def

lemmas render_defs = url_def origin_def authority_def userinfo_def host_def is_ipv6_def
  resource_def format_scheme_def version_def USERNAME_ENCODE_SET_def PASSWORD_ENCODE_SET_def

section \<open>Errors of parse\<close>

lemma parse_error_not_valid:
  "parse_default lib (str_of ''http://[not-valid'') = Inl InvalidIPv6Address"
  by (simp add: parse_defs str_defs decode_defs host_defs Let_def)

lemma parse_error_empty: "parse_default lib (str_of '''') = Inl URLMissingScheme"
  by (simp add: parse_defs str_defs)

lemma parse_error_hash: "parse_default lib (str_of ''#'') = Inl EmptyHostname"
  by (simp add: parse_defs str_defs decode_defs host_defs Let_def)

text \<open>
  C4, as the code has it. With the default arguments \<open>parse\<close> raises for each of
  the three texts, and what it raises is a \<open>ValueError\<close> each time, the only kind of
  exception the parser raises itself: for \<open>http://[not-valid\<close> the one of
  \<open>parse_ipv6_hostname\<close> for an invalid IPv6 address, for the empty text the one of
  \<open>parse\<close> for a missing scheme, and for \<open>#\<close> the one of \<open>parse_hostname\<close> for
  an empty hostname: the scheme \<open>http\<close> is assumed and the authority before
  \<open>#\<close> is empty.
\<close>

theorem parse_errors:
  "parse_default lib (str_of ''http://[not-valid'') = Inl InvalidIPv6Address
   \<and> host_error InvalidIPv6Address
   \<and> parse_default lib (str_of '''') = Inl URLMissingScheme
   \<and> url_error URLMissingScheme
   \<and> parse_default lib (str_of ''#'') = Inl EmptyHostname
   \<and> host_error EmptyHostname
   \<and> is_ValueError InvalidIPv6Address \<and> is_ValueError URLMissingScheme
   \<and> is_ValueError EmptyHostname"
  using parse_error_not_valid [of lib] parse_error_empty [of lib] parse_error_hash [of lib]
  by (simp add: host_error_def url_error_def is_ValueError_def)

theorem parse_errors_witness:
  "parse_default ascii_lib (str_of ''#'') = Inl EmptyHostname
   \<and> parse_default ascii_lib (str_of '''') = Inl URLMissingScheme
   \<and> parse_default ascii_lib (str_of ''http://[not-valid'') = Inl InvalidIPv6Address"
  using parse_errors [of ascii_lib] by simp

text \<open>
  For \<open>#\<close> the error is raised for the host, by \<open>parse_hostname\<close>, and is none of
  the errors \<open>parse\<close> raises for the URL as a whole.
\<close>

theorem parse_hash_counterexample:
  "parse_default ascii_lib (str_of ''#'') = Inl EmptyHostname
   \<and> host_error EmptyHostname \<and> \<not> url_error EmptyHostname"
  using parse_error_hash [of ascii_lib] by (simp add: host_error_def url_error_def)

section \<open>IPv4 literals\<close>

lemma hostname_hex_quad:
  "parse_hostname lib (str_of ''0xC0.0x00.0x02.0xEB'')
     = Inr (str_of ''192.0.2.235'', Some (IPv4Address 3221226219))"
  by (simp add: host_defs ipv4_defs int_defs digit_value_def str_defs Let_def str_nat.simps)






lemma and_then_Inr_iff: "and_then x f = Inr y \<longleftrightarrow> (\<exists>v. x = Inr v \<and> f v = Inr y)"
  by (cases x) auto









lemma parse_octet_digits:
  "parse_octet octet = Some v \<Longrightarrow>
     octet \<noteq> [] \<and> length octet \<le> 3
     \<and> list_all (\<lambda>c. ch CHR ''0'' \<le> c \<and> c \<le> ch CHR ''9'') octet"
  by (auto simp: parse_octet_def Let_def split: if_splits)





section \<open>Parsing a rendered URL again\<close>

lemma render_0X10:
  "and_then (parse_default lib (str_of ''http://0X10/'')) url = Inr (str_of ''http://0x10/'')"
  by (simp add: parse_defs str_defs decode_defs host_defs ipv4_defs int_defs resource_defs
       render_defs Let_def str_nat.simps char_of_eq_iff)

lemma render_0x10:
  "and_then (parse_default lib (str_of ''http://0x10/'')) url = Inr (str_of ''http://0.0.0.16/'')"
  by (simp add: parse_defs str_defs decode_defs host_defs ipv4_defs int_defs resource_defs
       render_defs Let_def str_nat.simps char_of_eq_iff)

lemma render_user_2541:
  "and_then (parse_default lib (str_of ''http://%2541@example.com/'')) url
     = Inr (str_of ''http://%41@example.com/'')"
  by (simp add: parse_defs str_defs decode_defs host_defs ipv4_defs int_defs resource_defs
       render_defs Let_def str_nat.simps char_of_eq_iff)

lemma render_user_41:
  "and_then (parse_default lib (str_of ''http://%41@example.com/'')) url
     = Inr (str_of ''http://A@example.com/'')"
  by (simp add: parse_defs str_defs decode_defs host_defs ipv4_defs int_defs resource_defs
       render_defs Let_def str_nat.simps char_of_eq_iff)

text \<open>
  C1 fails on the code. With the default arguments, \<open>http://0X10/\<close> parses and renders
  as \<open>http://0x10/\<close> (the prefix \<open>0X\<close> is not read as hexadecimal, so the host is a
  name and is put in lower case), and \<open>http://0x10/\<close> parses and renders as
  \<open>http://0.0.0.16/\<close> (now the host is an IPv4 address): the second pass changes the
  URL. Likewise \<open>http://%2541@example.com/\<close> renders as \<open>http://%41@example.com/\<close>
  (the user name is decoded to \<open>%41\<close> and a \<open>%\<close> is not encoded again), which
  renders as \<open>http://A@example.com/\<close>.
\<close>

theorem parse_render_not_idempotent:
  "and_then (parse_default lib (str_of ''http://0X10/'')) url = Inr (str_of ''http://0x10/'')
   \<and> and_then (parse_default lib (str_of ''http://0x10/'')) url = Inr (str_of ''http://0.0.0.16/'')
   \<and> and_then (parse_default lib (str_of ''http://%2541@example.com/'')) url
       = Inr (str_of ''http://%41@example.com/'')
   \<and> and_then (parse_default lib (str_of ''http://%41@example.com/'')) url
       = Inr (str_of ''http://A@example.com/'')"
  using render_0X10 [of lib] render_0x10 [of lib] render_user_2541 [of lib] render_user_41 [of lib]
  by blast

section \<open>Percent-decoding\<close>

lemma utf8_decode_one_positive: "0 < snd (utf8_decode_one b bs)"
  by (auto simp: utf8_decode_one_def split: list.splits)



lemma of_char_char_of_ascii: "c < 0x80 \<Longrightarrow> (of_char (char_of (c::nat)) :: nat) = c"
  by simp





lemma has_escape_Cons: "has_escape s \<Longrightarrow> has_escape (c # s)"
  by (cases s rule: has_escape.cases) auto

lemma has_escape_append_right: "has_escape b \<Longrightarrow> has_escape (a @ b)"
  by (induction a) (auto intro: has_escape_Cons)

lemma has_escape_append_left: "has_escape a \<Longrightarrow> has_escape (a @ b)"
  by (induction a rule: has_escape.induct) auto

lemma has_escape_takeWhile: "has_escape (takeWhile P s) \<Longrightarrow> has_escape s"
  using has_escape_append_left [of "takeWhile P s" "dropWhile P s"] by simp

lemma has_escape_dropWhile: "has_escape (dropWhile P s) \<Longrightarrow> has_escape s"
  using has_escape_append_right [of "dropWhile P s" "takeWhile P s"] by simp







section \<open>The hostname of a parsed URL\<close>

lemma ascii_decode_Inr: "ascii_decode b = Inr t \<Longrightarrow> t = map of_char b \<and> is_ascii t"
  by (auto simp: ascii_decode_def is_ascii_def list_all_iff split: if_splits)

lemma idna_encode_nonempty:
  assumes "\<forall>s b. idna_unicode lib s = Inr b \<longrightarrow> b \<noteq> []"
    and "idna_encode lib h = Inr b" and "h \<noteq> []"
  shows "b \<noteq> []"
  using assms by (auto simp: idna_encode_def Let_def split: if_splits)

lemma normalize_hostname_nonempty:
  assumes lib: "\<forall>s b. idna_unicode lib s = Inr b \<longrightarrow> b \<noteq> []"
    and ok: "normalize_hostname lib h = Inr new" and h: "h \<noteq> []"
  shows "new \<noteq> []"
proof -
  from ok obtain b where b: "idna_encode lib h = Inr b"
    by (cases "idna_encode lib h") (auto simp: normalize_hostname_def)
  from ok b obtain t where t: "ascii_decode b = Inr t"
    by (cases "ascii_decode b") (auto simp: normalize_hostname_def)
  from ok b t have new: "new = py_lower lib t"
    by (cases "idna_encode lib (py_lower lib t)")
       (auto simp: normalize_hostname_def Let_def split: if_splits)
  from idna_encode_nonempty [OF lib b h] have "b \<noteq> []" .
  with ascii_decode_Inr [OF t] have "t \<noteq> []" and "is_ascii t" by auto
  with new show ?thesis by (simp add: py_lower_def)
qed

lemma compressed4_nonempty: "compressed4 n \<noteq> []"
  by (simp add: compressed4_def)

lemma parse_hostname_nonempty:
  assumes v6: "\<forall>s c n. ipv6 lib s = Inr (c, n) \<longrightarrow> c \<noteq> []"
    and idna: "\<forall>s b. idna_unicode lib s = Inr b \<longrightarrow> b \<noteq> []"
    and ok: "parse_hostname lib h = Inr (hn, ad)"
  shows "hn \<noteq> []"
proof (cases "startswith h (str_of ''['')")
  case True
  with ok have "parse_ipv6_hostname lib h = Inr (hn, ad)" by (simp add: parse_hostname_def)
  then obtain c n where "ipv6 lib (butlast (tl h)) = Inr (c, n)" and "hn = c"
    by (cases "ipv6 lib (butlast (tl h))")
       (auto simp: parse_ipv6_hostname_def split: if_splits)
  with v6 show ?thesis by blast
next
  case False
  note nb = False
  show ?thesis
  proof (cases "h = []")
    case True
    with nb ok show ?thesis by (simp add: parse_hostname_def)
  next
    case False
    show ?thesis
    proof (cases "parse_ipv4_address lib h")
      case (Inr a)
      with nb False ok have "hn = compressed4 a" by (simp add: parse_hostname_def)
      with compressed4_nonempty show ?thesis by simp
    next
      case (Inl e)
      with nb False ok obtain new where "normalize_hostname lib h = Inr new" and "hn = new"
        by (cases "normalize_hostname lib h")
           (auto simp: parse_hostname_def split: if_splits)
      with normalize_hostname_nonempty [OF idna _ False] show ?thesis by blast
    qed
  qed
qed

lemma parse_host_nonempty:
  assumes v6: "\<forall>s c n. ipv6 lib s = Inr (c, n) \<longrightarrow> c \<noteq> []"
    and idna: "\<forall>s b. idna_unicode lib s = Inr b \<longrightarrow> b \<noteq> []"
    and ok: "parse_host lib h = Inr ((hn, ad), p)"
  shows "hn \<noteq> []"
proof -
  from ok have "\<exists>h'. parse_hostname lib h' = Inr (hn, ad)"
    by (auto simp: parse_host_def and_then_Inr_iff split: if_splits prod.splits)
  with parse_hostname_nonempty [OF v6 idna] show ?thesis by blast
qed

lemma set_host_hostname:
  assumes v6: "\<forall>s c n. ipv6 lib s = Inr (c, n) \<longrightarrow> c \<noteq> []"
    and idna: "\<forall>s b. idna_unicode lib s = Inr b \<longrightarrow> b \<noteq> []"
    and ok: "set_host lib self h = Inr self1"
  shows "\<exists>hn. hostname self1 = Some hn \<and> hn \<noteq> []"
proof -
  from ok obtain hn ad p where ph: "parse_host lib h = Inr ((hn, ad), p)"
    by (cases "parse_host lib h") (auto simp: set_host_def)
  with ok have "hostname self1 = Some hn"
    by (auto simp: set_host_def Let_def split: if_splits)
  with parse_host_nonempty [OF v6 idna ph] show ?thesis by simp
qed

lemma set_resource_hostname:
  "set_resource self res = Inr self1 \<Longrightarrow> hostname self1 = hostname self"
  by (auto simp: set_resource_def and_then_Inr_iff split: prod.splits)

lemma set_authority_hostname:
  assumes v6: "\<forall>s c n. ipv6 lib s = Inr (c, n) \<longrightarrow> c \<noteq> []"
    and idna: "\<forall>s b. idna_unicode lib s = Inr b \<longrightarrow> b \<noteq> []"
    and ok: "set_authority lib self a = Inr self1"
  shows "\<exists>hn. hostname self1 = Some hn \<and> hn \<noteq> []"
proof -
  from ok obtain self0 h where "set_host lib self0 h = Inr self1"
    by (auto simp: set_authority_def and_then_Inr_iff split: prod.splits)
  from set_host_hostname [OF v6 idna this] show ?thesis .
qed

lemma parse_branches:
  assumes "parse lib u ds enc qenc e = Inr r"
  shows "scheme_port (scheme r) = None
       \<or> (\<exists>info a res. and_then (set_authority lib info a) (\<lambda>info1. set_resource info1 res) = Inr r)"
  using assms
  by (auto simp: parse_def Let_def split: if_splits prod.splits)

section \<open>Lenient decoding\<close>



text \<open>
  The leniency is about escapes that are not well formed. A well-formed escape whose
  bytes are not UTF-8 is replaced under the default error handling and raises under
  \<open>strict\<close>, the error handling \<open>URLInfo\<close> passes for the user information.
\<close>

lemma percent_decode_strict_raises:
  "percent_decode (str_of ''%ff'') utf_8 Strict = Inl UnicodeDecodeError
   \<and> percent_decode (str_of ''%ff'') utf_8 Replace = Inr [0xFFFD]"
  by (simp add: decode_defs)

section \<open>Non-empty hostname\<close>

text \<open>
  C10. Let the library give a text that is not empty as the compressed form of an IPv6
  address and bytes that are not empty as the IDNA encoding of a name that is not ASCII
  (CPython does both). Then whenever \<open>parse\<close> returns a record whose scheme is in
  the table of relative schemes, the hostname of the record is a text and is not empty:
  for an absent or empty host \<open>parse\<close> raises.
\<close>

theorem parse_relative_hostname_nonempty:
  assumes "\<forall>s c n. ipv6 lib s = Inr (c, n) \<longrightarrow> c \<noteq> []"
    and "\<forall>s b. idna_unicode lib s = Inr b \<longrightarrow> b \<noteq> []"
    and "parse lib u ds enc qenc e = Inr r"
    and "scheme_port (scheme r) \<noteq> None"
  shows "\<exists>h. hostname r = Some h \<and> h \<noteq> []"
proof -
  from parse_branches [OF assms(3)] assms(4) obtain info a res where
    "and_then (set_authority lib info a) (\<lambda>info1. set_resource info1 res) = Inr r" by blast
  then obtain info1 where sa: "set_authority lib info a = Inr info1"
    and sr: "set_resource info1 res = Inr r"
    by (auto simp: and_then_Inr_iff)
  from set_authority_hostname [OF assms(1,2) sa] set_resource_hostname [OF sr]
  show ?thesis by simp
qed

theorem parse_relative_hostname_nonempty_witness:
  "(\<exists>r h. parse_default sample_lib (str_of ''http://[::1]:8080/x'') = Inr r
        \<and> hostname r = Some h \<and> h \<noteq> [] \<and> h = str_of ''::1'')
   \<and> (\<exists>r h. parse_default sample_lib (str_of ''http://'' @ [0xE9] @ str_of ''/'') = Inr r
        \<and> hostname r = Some h \<and> h \<noteq> [] \<and> h = str_of ''xn--9ca'')"
proof -
  have v6: "\<forall>s c n. ipv6 sample_lib s = Inr (c, n) \<longrightarrow> c \<noteq> []"
    by (simp add: sample_lib_def ascii_lib_def)
  have idna: "\<forall>s b. idna_unicode sample_lib s = Inr b \<longrightarrow> b \<noteq> []"
    by (simp add: sample_lib_def ascii_lib_def)
  have "and_then (parse_default sample_lib (str_of ''http://[::1]:8080/x''))
          (\<lambda>r. Inr (hostname r, scheme r))
        = Inr (Some (str_of ''::1''), Some (str_of ''http''))"
    by (simp add: parse_defs str_defs decode_defs host_defs ipv4_defs int_defs resource_defs
         Let_def char_of_eq_iff sample_lib_def ascii_lib_def)
  then obtain r where r: "parse_default sample_lib (str_of ''http://[::1]:8080/x'') = Inr r"
    and h: "hostname r = Some (str_of ''::1'')" and s: "scheme r = Some (str_of ''http'')"
    by (auto simp: and_then_Inr_iff)
  from s have sp: "scheme_port (scheme r) \<noteq> None"
    by (simp add: scheme_port_def RELATIVE_SCHEME_DEFAULT_PORTS_def)
  from parse_relative_hostname_nonempty [OF v6 idna r sp] h r
  have first: "\<exists>r h. parse_default sample_lib (str_of ''http://[::1]:8080/x'') = Inr r
        \<and> hostname r = Some h \<and> h \<noteq> [] \<and> h = str_of ''::1''"
    by auto
  have "and_then (parse_default sample_lib (str_of ''http://'' @ [0xE9] @ str_of ''/''))
          (\<lambda>r. Inr (hostname r, scheme r))
        = Inr (Some (str_of ''xn--9ca''), Some (str_of ''http''))"
    by (simp add: parse_defs str_defs decode_defs host_defs ipv4_defs int_defs resource_defs
         Let_def char_of_eq_iff sample_lib_def ascii_lib_def)
  then obtain r2 where
    r2: "parse_default sample_lib (str_of ''http://'' @ [0xE9] @ str_of ''/'') = Inr r2"
    and h2: "hostname r2 = Some (str_of ''xn--9ca'')" and s2: "scheme r2 = Some (str_of ''http'')"
    by (auto simp: and_then_Inr_iff)
  from s2 have sp2: "scheme_port (scheme r2) \<noteq> None"
    by (simp add: scheme_port_def RELATIVE_SCHEME_DEFAULT_PORTS_def)
  from parse_relative_hostname_nonempty [OF v6 idna r2 sp2] h2 r2
  have second: "\<exists>r h. parse_default sample_lib (str_of ''http://'' @ [0xE9] @ str_of ''/'') = Inr r
        \<and> hostname r = Some h \<and> h \<noteq> [] \<and> h = str_of ''xn--9ca''"
    by auto
  from first second show ?thesis by blast
qed

end
